theory Spec2Isabelle
  imports Complex_Main "HOL-Library.Sublist" "HOL-Library.Log_Nat"
begin

section \<open>Python values shared by the models\<close>

text \<open>
  Exceptions are values. Every \<^verbatim>\<open>raise\<close> of the source is an \<open>Inl\<close> of the model,
  carrying the exception's class and its message. \<^verbatim>\<open>except Exception\<close> catches the
  classes derived from \<^verbatim>\<open>Exception\<close>; \<^verbatim>\<open>CancelledError\<close>, \<^verbatim>\<open>KeyboardInterrupt\<close> and
  \<^verbatim>\<open>SystemExit\<close> derive from \<^verbatim>\<open>BaseException\<close> only and pass through it.
\<close>

datatype exc_class =
    ZeroDivisionError | KeyError | TypeError | UnboundLocalError | ValueError
  | ConnectionError | JSONDecodeError | SQLAlchemyError | OSError
  | CancelledError | KeyboardInterrupt | SystemExit

datatype py_exc = Exc exc_class string

fun exc_class_of :: "py_exc \<Rightarrow> exc_class" where
  "exc_class_of (Exc c m) = c"

fun exc_message :: "py_exc \<Rightarrow> string" where
  "exc_message (Exc c m) = m"

fun is_Exception :: "exc_class \<Rightarrow> bool" where
  "is_Exception CancelledError = False"
| "is_Exception KeyboardInterrupt = False"
| "is_Exception SystemExit = False"
| "is_Exception c = True"

definition catchable :: "py_exc + 'a \<Rightarrow> bool" where
  \<comment> \<open>an outcome that is a value, or an exception that \<^verbatim>\<open>except Exception\<close> catches\<close>
  "catchable r = (case r of Inl e \<Rightarrow> is_Exception (exc_class_of e) | Inr v \<Rightarrow> True)"

section \<open>String operations of the Python runtime\<close>

text \<open>
  A Python \<^verbatim>\<open>str\<close> is modelled as a \<open>string\<close> whose characters are the code points
  below 256, one \<open>char\<close> per code point, so \<open>length\<close> is Python's \<^verbatim>\<open>len\<close>.
\<close>

definition startswith :: "string \<Rightarrow> string \<Rightarrow> bool" where
  \<comment> \<open>\<^verbatim>\<open>s.startswith(p)\<close>\<close>
  "startswith s p = (take (length p) s = p)"

fun py_in :: "string \<Rightarrow> string \<Rightarrow> bool" where
  \<comment> \<open>\<^verbatim>\<open>sub in s\<close>\<close>
  "py_in sub [] = (sub = [])"
| "py_in sub (c # cs) = (startswith (c # cs) sub \<or> py_in sub cs)"

fun split_once :: "string \<Rightarrow> string \<Rightarrow> (string \<times> string) option" where
  \<comment> \<open>the text before and after the first occurrence of \<open>sep\<close>, if there is one\<close>
  "split_once sep [] = None"
| "split_once sep (c # cs) =
     (if startswith (c # cs) sep then Some ([], drop (length sep) (c # cs))
      else (case split_once sep cs of
              None \<Rightarrow> None
            | Some (a, b) \<Rightarrow> Some (c # a, b)))"

definition split_max1 :: "string \<Rightarrow> string \<Rightarrow> string list" where
  \<comment> \<open>\<^verbatim>\<open>s.split(sep, 1)\<close>\<close>
  "split_max1 s sep = (case split_once sep s of None \<Rightarrow> [s] | Some (a, b) \<Rightarrow> [a, b])"

fun split_char :: "string \<Rightarrow> char \<Rightarrow> string list" where
  \<comment> \<open>\<^verbatim>\<open>s.split(c)\<close> for a separator of one character\<close>
  "split_char [] sep = [[]]"
| "split_char (c # cs) sep =
     (if c = sep then [] # split_char cs sep
      else (case split_char cs sep of
              [] \<Rightarrow> [[c]]
            | p # ps \<Rightarrow> (c # p) # ps))"

definition strip_char :: "string \<Rightarrow> char \<Rightarrow> string" where
  \<comment> \<open>\<^verbatim>\<open>s.strip(c)\<close> for one character\<close>
  "strip_char s c = rev (dropWhile (\<lambda>x. x = c) (rev (dropWhile (\<lambda>x. x = c) s)))"

definition isalpha :: "char \<Rightarrow> bool" where
  \<comment> \<open>\<^verbatim>\<open>str.isalpha\<close> on one code point below 256: the ASCII letters and the letters
      of Latin-1 (U+00AA, U+00B5, U+00BA, U+00C0..U+00D6, U+00D8..U+00F6, U+00F8..U+00FF)\<close>
  "isalpha c = (let n = (of_char c :: nat) in
       (65 \<le> n \<and> n \<le> 90) \<or> (97 \<le> n \<and> n \<le> 122) \<or> n = 170 \<or> n = 181 \<or> n = 186
     \<or> (192 \<le> n \<and> n \<le> 214) \<or> (216 \<le> n \<and> n \<le> 246) \<or> (248 \<le> n \<and> n \<le> 255))"

definition lower_char :: "char \<Rightarrow> char" where
  \<comment> \<open>\<^verbatim>\<open>str.lower\<close> on one code point below 256\<close>
  "lower_char c = (let n = (of_char c :: nat) in
     if (65 \<le> n \<and> n \<le> 90) \<or> (192 \<le> n \<and> n \<le> 214) \<or> (216 \<le> n \<and> n \<le> 222)
     then char_of (n + 32) else c)"

definition lower :: "string \<Rightarrow> string" where
  "lower s = map lower_char s"

definition basename :: "string \<Rightarrow> string" where
  \<comment> \<open>\<^verbatim>\<open>os.path.basename\<close> (POSIX): the text after the last slash\<close>
  "basename p = rev (takeWhile (\<lambda>c. c \<noteq> CHR ''/'') (rev p))"

definition splitext_root :: "string \<Rightarrow> string" where
  \<comment> \<open>\<^verbatim>\<open>os.path.splitext(p)[0]\<close> (POSIX): cut at the last dot of the last path component,
      unless only dots precede it there\<close>
  "splitext_root p =
     (let ext = takeWhile (\<lambda>c. c \<noteq> CHR ''.'' \<and> c \<noteq> CHR ''/'') (rev p);
          rest = drop (length ext) (rev p)
      in (case rest of
            [] \<Rightarrow> p
          | d # front \<Rightarrow>
              if d = CHR ''.'' \<and> list_ex (\<lambda>c. c \<noteq> CHR ''.'') (takeWhile (\<lambda>c. c \<noteq> CHR ''/'') front)
              then rev front else p))"

section \<open>The irregularity predicate\<close>

text \<open>
  \<^verbatim>\<open>StructuredDataProfiler.is_irregular\<close>: the column names are summed as booleans, the
  sum is divided by \<^verbatim>\<open>len(cols)\<close> (true division, which raises on a zero divisor), and
  the quotient is compared with 0.5.
\<close>

definition unnamed_count :: "string list \<Rightarrow> nat" where
  \<comment> \<open>\<^verbatim>\<open>sum(col.startswith("Unnamed") for col in cols.astype(str))\<close>\<close>
  "unnamed_count cols = sum_list (map (\<lambda>col. if startswith col ''Unnamed'' then 1 else 0) cols)"

definition is_irregular :: "string list \<Rightarrow> py_exc + bool" where
  "is_irregular cols =
     (let s = unnamed_count cols; n = length cols
      in if n = 0 then Inl (Exc ZeroDivisionError ''division by zero'')
         else (let unnamed_columns_ratio = real s / real n
               in Inr (unnamed_columns_ratio \<ge> 0.5)))"

section \<open>Names of data sources\<close>

definition is_word_char :: "char \<Rightarrow> bool" where
  \<comment> \<open>the complement of the class \<^verbatim>\<open>[^a-zA-Z0-9_]\<close>\<close>
  "is_word_char c = (let n = (of_char c :: nat) in
     (97 \<le> n \<and> n \<le> 122) \<or> (65 \<le> n \<and> n \<le> 90) \<or> (48 \<le> n \<and> n \<le> 57) \<or> n = 95)"

definition word_chars :: "char set" where
  \<comment> \<open>the characters of \<^verbatim>\<open>[A-Za-z0-9_]\<close>, written out\<close>
  "word_chars = set ''abcdefghijklmnopqrstuvwxyzABCDEFGHIJKLMNOPQRSTUVWXYZ0123456789_''"

definition head_chars :: "char set" where
  \<comment> \<open>the ASCII letters and the underscore, written out\<close>
  "head_chars = set ''abcdefghijklmnopqrstuvwxyzABCDEFGHIJKLMNOPQRSTUVWXYZ_''"

definition sanitize_name :: "string \<Rightarrow> string" where
  \<comment> \<open>\<^verbatim>\<open>DataSourceManager._sanitize_name\<close>\<close>
  "sanitize_name name =
     (let sanitized = map (\<lambda>c. if is_word_char c then c else CHR ''_'') name;
          sanitized = (case sanitized of
                         [] \<Rightarrow> sanitized
                       | c # _ \<Rightarrow> if \<not> isalpha c \<and> c \<noteq> CHR ''_''
                                 then CHR ''_'' # sanitized else sanitized);
          sanitized = take 50 sanitized
      in if sanitized = [] then ''unknown'' else sanitized)"

text \<open>
  \<^verbatim>\<open>DataSourceManager._generate_name\<close>. The file system and \<^verbatim>\<open>urllib.parse.urlparse\<close>
  are outside the repository and are parameters: \<open>isfile\<close> is \<^verbatim>\<open>os.path.isfile\<close>, and
  \<open>urlparse\<close> gives the \<^verbatim>\<open>netloc\<close> and the \<^verbatim>\<open>path\<close> of the parsed URL, or \<open>None\<close> when it
  raises. In the helpers, \<open>None\<close> stands for an exception raised inside the \<^verbatim>\<open>try\<close> block
  (a failed unpacking or index), which the \<^verbatim>\<open>except Exception\<close> of that block catches.
  Nothing outside these blocks raises on a string, so the outermost handler, which would
  return the sanitized \<^verbatim>\<open>unknown_source\<close>, has no branch here.
\<close>

definition db_indicators :: "string list" where
  "db_indicators = [''://'', ''.db'', ''.sqlite'', ''mongodb://'', ''mongodb+srv://'',
                    ''neo4j://'', ''bolt://'']"

definition index_first :: "'a list \<Rightarrow> 'a option" where
  \<comment> \<open>\<^verbatim>\<open>xs[0]\<close>, \<open>None\<close> for IndexError\<close>
  "index_first xs = (case xs of [] \<Rightarrow> None | x # _ \<Rightarrow> Some x)"

definition index_last :: "'a list \<Rightarrow> 'a option" where
  \<comment> \<open>\<^verbatim>\<open>xs[-1]\<close>, \<open>None\<close> for IndexError\<close>
  "index_last xs = (case rev xs of [] \<Rightarrow> None | x # _ \<Rightarrow> Some x)"

definition index_last2 :: "'a list \<Rightarrow> 'a option" where
  \<comment> \<open>\<^verbatim>\<open>xs[-2]\<close>, \<open>None\<close> for IndexError\<close>
  "index_last2 xs = (case rev xs of x # y # _ \<Rightarrow> Some y | _ \<Rightarrow> None)"

definition strip_password :: "string \<Rightarrow> string option" where
  \<comment> \<open>the block under \<^verbatim>\<open>if "@" in rest\<close>: keep only the user name of \<^verbatim>\<open>user:password@host\<close>\<close>
  "strip_password rest =
     (if py_in ''@'' rest then
        (case split_max1 rest ''@'' of
           [auth_part, host_part] \<Rightarrow>
             if py_in '':'' auth_part then
               (case index_first (split_char auth_part CHR '':'') of
                  None \<Rightarrow> None
                | Some username \<Rightarrow> Some (username @ ''@'' @ host_part))
             else Some rest
         | _ \<Rightarrow> None)
      else Some rest)"

definition extract_db_name :: "string \<Rightarrow> string option" where
  \<comment> \<open>the block that computes \<^verbatim>\<open>db_name\<close> from \<^verbatim>\<open>rest\<close>\<close>
  "extract_db_name rest =
     (if py_in ''/'' rest then
        (let path_parts = split_char rest CHR ''/'' in
         if length path_parts > 1 then
           (case index_last path_parts of
              None \<Rightarrow> None
            | Some lastp \<Rightarrow>
                (case index_first (split_char lastp CHR ''?'') of
                   None \<Rightarrow> None
                 | Some q \<Rightarrow>
                     (case index_first (split_char q CHR ''#'') of
                        None \<Rightarrow> None
                      | Some db_name \<Rightarrow>
                          if db_name = [] then
                            (if length path_parts > 2 then index_last2 path_parts
                             else Some ''unknown'')
                          else Some db_name)))
         else Some ''unknown'')
      else
        (case index_first (split_char rest CHR '':'') of
           None \<Rightarrow> None
         | Some a \<Rightarrow>
             (case index_first (split_char a CHR ''/'') of
                None \<Rightarrow> None
              | Some b \<Rightarrow> index_last (split_char b CHR ''@''))))"

definition db_url_name :: "string \<Rightarrow> string option" where
  \<comment> \<open>the \<^verbatim>\<open>try\<close> block for database connection strings\<close>
  "db_url_name endpoint =
     (case split_max1 endpoint ''://'' of
        [scheme0, rest0] \<Rightarrow>
          (let scheme = lower scheme0 in
           case strip_password rest0 of
             None \<Rightarrow> None
           | Some rest \<Rightarrow>
               (case extract_db_name rest of
                  None \<Rightarrow> None
                | Some db_name \<Rightarrow> Some (sanitize_name (scheme @ ''_'' @ db_name))))
      | _ \<Rightarrow> None)"

definition url_name :: "(string \<Rightarrow> (string \<times> string) option) \<Rightarrow> string \<Rightarrow> string option" where
  \<comment> \<open>the \<^verbatim>\<open>try\<close> block for URLs; \<open>None\<close> when it returns nothing or raises\<close>
  "url_name urlparse endpoint =
     (case urlparse endpoint of
        None \<Rightarrow> None
      | Some (netloc, path) \<Rightarrow>
          if netloc \<noteq> [] then
            (case index_first (split_char netloc CHR '':'') of
               None \<Rightarrow> None
             | Some h \<Rightarrow>
                 (case index_last (split_char h CHR ''@'') of
                    None \<Rightarrow> None
                  | Some domain \<Rightarrow>
                      if path \<noteq> [] \<and> path \<noteq> ''/'' then
                        (let path_parts = split_char (strip_char path CHR ''/'') CHR ''/'' in
                         if path_parts \<noteq> [] then map_option sanitize_name (index_last path_parts)
                         else Some (sanitize_name domain))
                      else Some (sanitize_name domain)))
          else if path \<noteq> [] then
            (let path_parts = split_char (strip_char path CHR ''/'') CHR ''/'' in
             if path_parts \<noteq> [] then map_option sanitize_name (index_last path_parts)
             else None)
          else None)"

definition generate_name ::
  "(string \<Rightarrow> bool) \<Rightarrow> (string \<Rightarrow> (string \<times> string) option) \<Rightarrow> string \<Rightarrow> string" where
  "generate_name isfile urlparse endpoint =
     (let url_or_fallback =
            (case (if py_in ''://'' endpoint then url_name urlparse endpoint else None) of
               Some n \<Rightarrow> n
             | None \<Rightarrow> sanitize_name (take 50 endpoint))
      in
      if isfile endpoint then sanitize_name (splitext_root (basename endpoint))
      else if list_ex (\<lambda>indicator. py_in indicator (lower endpoint)) db_indicators then
        (if py_in ''://'' endpoint then
           (case db_url_name endpoint of
              Some n \<Rightarrow> n
            | None \<Rightarrow> url_or_fallback)
         else if py_in ''.'' endpoint then sanitize_name (splitext_root (basename endpoint))
         else url_or_fallback)
      else url_or_fallback)"

section \<open>Parsed JSON\<close>

text \<open>
  The value \<^verbatim>\<open>json.loads\<close> returns. An object is the list of its members, each key once
  (the parser keeps one value per key); a number that is not an integer is kept as the
  decimal literal \<open>m * 10 ^ e\<close>.
\<close>

datatype json =
    JNull | JBool bool | JInt int | JFloat int int | JStr string
  | JArr "json list" | JObj "(string \<times> json) list"

section \<open>Schema extraction from a table sample\<close>

text \<open>
  A pandas data frame as the profiler reads it: its length and its columns, each with its
  label (unique, pandas renames repeated headers), the name of its dtype and its cells.
  Three operations of pandas are parameters of the model: \<open>shuffle\<close> is
  \<^verbatim>\<open>.sample(frac=1, random_state=42)\<close>, \<open>astype_str\<close> is the conversion of a cell by
  \<^verbatim>\<open>.astype(str)\<close>, and \<open>to_csv\<close> is \<^verbatim>\<open>.to_csv(index=True)\<close>.
\<close>

record 'v df_column =
  col_label :: string
  col_dtype :: string
  col_cells :: "'v list"

record 'v dataframe =
  df_len :: nat
  df_columns :: "'v df_column list"

record column_descriptor =
  column_name :: string
  data_type :: string
  data_samples :: "string list"

text \<open>
  The dictionary that describes one table. A field of type option is \<open>None\<close> when the key
  is absent or holds \<^verbatim>\<open>None\<close>; the code reads the keys \<^verbatim>\<open>columns\<close> and
  \<^verbatim>\<open>irregular_judgment\<close> with \<^verbatim>\<open>in\<close>, and those two are \<open>None\<close> exactly when absent.
\<close>

record table_schema =
  ts_name :: string
  ts_raw_data_snippet :: "string option"
  ts_row_count :: "int option"
  ts_col_count :: "nat option"
  ts_columns :: "column_descriptor list option"
  ts_irregular_judgment :: "json option"

fun drop_duplicates_from :: "'a list \<Rightarrow> 'a list \<Rightarrow> 'a list" where
  "drop_duplicates_from seen [] = []"
| "drop_duplicates_from seen (x # xs) =
     (if x \<in> set seen then drop_duplicates_from seen xs
      else x # drop_duplicates_from (x # seen) xs)"

definition drop_duplicates :: "'a list \<Rightarrow> 'a list" where
  \<comment> \<open>\<^verbatim>\<open>.drop_duplicates()\<close>: the first occurrence of each value, in order\<close>
  "drop_duplicates xs = drop_duplicates_from [] xs"

definition upper :: "string \<Rightarrow> string" where
  \<comment> \<open>\<^verbatim>\<open>str.upper\<close> on the ASCII text of a dtype name\<close>
  "upper s = map (\<lambda>c. let n = (of_char c :: nat) in
                       if 97 \<le> n \<and> n \<le> 122 then char_of (n - 32) else c) s"

fun collect_samples :: "nat \<Rightarrow> string list \<Rightarrow> string list" where
  \<comment> \<open>the loop \<^verbatim>\<open>for s in candidates: if (length := length + len(s)) <= 1000: samples.append(s)\<close>\<close>
  "collect_samples len [] = []"
| "collect_samples len (s # candidates) =
     (let len' = len + length s
      in if len' \<le> 1000 then s # collect_samples len' candidates
         else collect_samples len' candidates)"

definition column_candidates ::
  "('v list \<Rightarrow> 'v list) \<Rightarrow> ('v \<Rightarrow> string) \<Rightarrow> 'v df_column \<Rightarrow> string list" where
  "column_candidates shuffle astype_str col =
     map astype_str (take 5 (shuffle (drop_duplicates (col_cells col))))"

definition describe_column ::
  "('v list \<Rightarrow> 'v list) \<Rightarrow> ('v \<Rightarrow> string) \<Rightarrow> 'v df_column \<Rightarrow> column_descriptor" where
  \<comment> \<open>the body of the loop over \<^verbatim>\<open>df.columns\<close>\<close>
  "describe_column shuffle astype_str col =
     \<lparr>column_name = col_label col,
      data_type = upper (col_dtype col),
      data_samples = collect_samples 0 (column_candidates shuffle astype_str col)\<rparr>"

definition head5 :: "'v dataframe \<Rightarrow> 'v dataframe" where
  \<comment> \<open>\<^verbatim>\<open>df.head(5)\<close>\<close>
  "head5 df = \<lparr>df_len = min 5 (df_len df),
              df_columns = map (\<lambda>c. c\<lparr>col_cells := take 5 (col_cells c)\<rparr>) (df_columns df)\<rparr>"

definition extract_schema_from_table ::
  "('v list \<Rightarrow> 'v list) \<Rightarrow> ('v \<Rightarrow> string) \<Rightarrow> ('v dataframe \<Rightarrow> string)
     \<Rightarrow> 'v dataframe \<Rightarrow> string \<Rightarrow> table_schema" where
  "extract_schema_from_table shuffle astype_str to_csv df df_name =
     (let col_list = map (describe_column shuffle astype_str) (df_columns df);
          raw_data_snippet = to_csv (head5 df)
      in \<lparr>ts_name = df_name,
          ts_raw_data_snippet = Some raw_data_snippet,
          ts_row_count = (if df_len df < 100 then Some (int (df_len df)) else None),
          ts_col_count = Some (length (df_columns df)),
          ts_columns = Some col_list,
          ts_irregular_judgment = None\<rparr>)"

text \<open>
  \<^verbatim>\<open>CsvProfiler._read_data\<close>. The two reads of the file are parameters: \<open>scan_len\<close> is the
  row count computed with Polars and \<open>read_csv\<close> is the frame of the first 100 rows read
  with pandas; either may raise. The irregularity predicate is not consulted here: the call
  is commented out in the source.
\<close>

definition csv_read_data ::
  "('v list \<Rightarrow> 'v list) \<Rightarrow> ('v \<Rightarrow> string) \<Rightarrow> ('v dataframe \<Rightarrow> string)
     \<Rightarrow> string \<Rightarrow> py_exc + int \<Rightarrow> py_exc + 'v dataframe \<Rightarrow> py_exc + table_schema" where
  "csv_read_data shuffle astype_str to_csv file_name scan_len read_csv =
     (case scan_len of
        Inl e \<Rightarrow> Inl e
      | Inr row_count \<Rightarrow>
          (case read_csv of
             Inl e \<Rightarrow> Inl e
           | Inr df \<Rightarrow>
               (let schema = extract_schema_from_table shuffle astype_str to_csv df file_name
                in Inr (schema\<lparr>ts_row_count := Some row_count\<rparr>))))"

section \<open>Merging the model's response with the structural schema\<close>

text \<open>
  The structural data a profiler keeps in \<^verbatim>\<open>self.data\<close>: a name, and a flat column list
  (flat files), a table list (workbooks and databases), or both. The merged profile has
  the same shape with a description at the top and one per table.
\<close>

record data_schema =
  ds_name :: string
  ds_columns :: "column_descriptor list option"
  ds_tables :: "table_schema list option"

definition single_table_data :: "table_schema \<Rightarrow> data_schema" where
  \<comment> \<open>a table dictionary used as \<^verbatim>\<open>self.data\<close>, as the CSV profiler does\<close>
  "single_table_data t = \<lparr>ds_name = ts_name t, ds_columns = ts_columns t, ds_tables = None\<rparr>"

record merged_table =
  mt_name :: string
  mt_description :: json
  mt_columns :: "column_descriptor list option"
  mt_irregular_judgment :: "json option"

record profile =
  pf_name :: string
  pf_description :: json
  pf_columns :: "column_descriptor list option"
  pf_tables :: "merged_table list option"

fun py_getitem :: "json \<Rightarrow> string \<Rightarrow> py_exc + json" where
  \<comment> \<open>\<^verbatim>\<open>obj[key]\<close> with a string key\<close>
  "py_getitem (JObj kvs) k =
     (case map_of kvs k of None \<Rightarrow> Inl (Exc KeyError k) | Some v \<Rightarrow> Inr v)"
| "py_getitem (JArr xs) k = Inl (Exc TypeError ''list indices must be integers or slices, not str'')"
| "py_getitem (JStr s) k = Inl (Exc TypeError ''string indices must be integers, not str'')"
| "py_getitem j k = Inl (Exc TypeError ''object is not subscriptable'')"

fun py_has_key :: "string \<Rightarrow> json \<Rightarrow> py_exc + bool" where
  \<comment> \<open>\<^verbatim>\<open>key in obj\<close> with a string key\<close>
  "py_has_key k (JObj kvs) = Inr (map_of kvs k \<noteq> None)"
| "py_has_key k (JArr xs) = Inr (JStr k \<in> set xs)"
| "py_has_key k (JStr s) = Inr (py_in k s)"
| "py_has_key k j = Inl (Exc TypeError ''argument is not iterable'')"

fun py_iter :: "json \<Rightarrow> py_exc + json list" where
  \<comment> \<open>the values a \<^verbatim>\<open>for\<close> loop over \<open>obj\<close> visits\<close>
  "py_iter (JArr xs) = Inr xs"
| "py_iter (JObj kvs) = Inr (map (\<lambda>kv. JStr (fst kv)) kvs)"
| "py_iter (JStr s) = Inr (map (\<lambda>c. JStr [c]) s)"
| "py_iter j = Inl (Exc TypeError ''object is not iterable'')"

fun hashable :: "json \<Rightarrow> bool" where
  "hashable (JArr xs) = False"
| "hashable (JObj kvs) = False"
| "hashable j = True"

fun build_res_des_map :: "json list \<Rightarrow> py_exc + (json \<times> json) list" where
  \<comment> \<open>\<^verbatim>\<open>{table["name"]: table["description"] for table in response["tables"]}\<close>, as the
      list of the pairs in the order they are stored; a later pair replaces an earlier one
      with an equal key\<close>
  "build_res_des_map [] = Inr []"
| "build_res_des_map (table # rest) =
     (case py_getitem table ''name'' of
        Inl e \<Rightarrow> Inl e
      | Inr k \<Rightarrow>
          (case py_getitem table ''description'' of
             Inl e \<Rightarrow> Inl e
           | Inr v \<Rightarrow>
               if \<not> hashable k then Inl (Exc TypeError ''unhashable type'')
               else (case build_res_des_map rest of
                       Inl e \<Rightarrow> Inl e
                     | Inr m \<Rightarrow> Inr ((k, v) # m))))"

definition res_des_lookup :: "(json \<times> json) list \<Rightarrow> string \<Rightarrow> json option" where
  \<comment> \<open>\<^verbatim>\<open>res_des_map[table_name]\<close> for a string: the value stored last under that string\<close>
  "res_des_lookup m table_name = map_of (rev m) (JStr table_name)"

fun merge_tables :: "(json \<times> json) list \<Rightarrow> table_schema list \<Rightarrow> merged_table list" where
  \<comment> \<open>the loop \<^verbatim>\<open>for table in self.data["tables"]\<close>\<close>
  "merge_tables m [] = []"
| "merge_tables m (table # rest) =
     (case res_des_lookup m (ts_name table) of
        None \<Rightarrow> merge_tables m rest
      | Some description \<Rightarrow>
          \<lparr>mt_name = ts_name table,
           mt_description = description,
           mt_columns = ts_columns table,
           mt_irregular_judgment = ts_irregular_judgment table\<rparr> # merge_tables m rest)"

definition wrap_data_response :: "data_schema \<Rightarrow> json \<Rightarrow> py_exc + profile" where
  \<comment> \<open>\<^verbatim>\<open>StructuredDataProfiler._wrap_data_response\<close>\<close>
  "wrap_data_response data response =
     (case py_getitem response ''description'' of
        Inl e \<Rightarrow> Inl e
      | Inr description \<Rightarrow>
          (let new_schema = \<lparr>pf_name = ds_name data, pf_description = description,
                             pf_columns = ds_columns data, pf_tables = None\<rparr>
           in case ds_tables data of
                None \<Rightarrow> Inr new_schema
              | Some tables \<Rightarrow>
                  (case py_has_key ''tables'' response of
                     Inl e \<Rightarrow> Inl e
                   | Inr False \<Rightarrow> Inr new_schema
                   | Inr True \<Rightarrow>
                       (case py_getitem response ''tables'' of
                          Inl e \<Rightarrow> Inl e
                        | Inr response_tables \<Rightarrow>
                            (case py_iter response_tables of
                               Inl e \<Rightarrow> Inl e
                             | Inr entries \<Rightarrow>
                                 (case build_res_des_map entries of
                                    Inl e \<Rightarrow> Inl e
                                  | Inr res_des_map \<Rightarrow>
                                      Inr (new_schema\<lparr>pf_tables :=
                                             Some (merge_tables res_des_map tables)\<rparr>)))))))"

section \<open>Relational introspection\<close>

text \<open>
  The database as the profiler sees it through SQLAlchemy. Each query is a value that is
  either the exception it raises or its result: \<open>get_table_names\<close> and \<open>get_columns\<close> are
  the inspector's methods, \<open>select_count\<close> is the first field of
  \<^verbatim>\<open>execute(SELECT COUNT(*) ...).fetchone()\<close> (\<open>None\<close> when there is no row) and
  \<open>select_rows\<close> is \<^verbatim>\<open>execute(SELECT * ... LIMIT 5).fetchall()\<close>. A field of a fetched row is
  \<open>None\<close> for SQL NULL and otherwise the text \<^verbatim>\<open>str\<close> gives for it.
\<close>

record column_meta =
  cm_name :: string
  cm_type :: string

type_synonym db_row = "string option list"

record connection =
  get_table_names :: "py_exc + string list"
  get_columns :: "string \<Rightarrow> py_exc + column_meta list"
  select_count :: "string \<Rightarrow> py_exc + int option"
  select_rows :: "string \<Rightarrow> py_exc + db_row list"

fun join :: "string \<Rightarrow> string list \<Rightarrow> string" where
  \<comment> \<open>\<^verbatim>\<open>sep.join(xs)\<close>\<close>
  "join sep [] = []"
| "join sep [x] = x"
| "join sep (x # y # ys) = x @ sep @ join sep (y # ys)"

definition snippet_value :: "string option \<Rightarrow> string" where
  \<comment> \<open>one field of a snippet line: NULL, or the text, quoted when it holds a comma or a
      newline\<close>
  "snippet_value value =
     (case value of
        None \<Rightarrow> ''NULL''
      | Some val_str \<Rightarrow>
          if py_in '','' val_str \<or> py_in [CHR 0x0A] val_str
          then [CHR 0x22] @ val_str @ [CHR 0x22] else val_str)"

definition build_snippet :: "column_meta list \<Rightarrow> db_row list \<Rightarrow> string" where
  "build_snippet columns rows =
     join [CHR 0x0A]
       (join '', '' (map cm_name columns)
        # map (\<lambda>row. join '', '' (map snippet_value row)) rows)"

definition column_detail :: "db_row list \<Rightarrow> nat \<Rightarrow> column_meta \<Rightarrow> column_descriptor" where
  \<comment> \<open>the body of the loop over \<^verbatim>\<open>enumerate(columns)\<close>; the samples are stored under the
      key \<^verbatim>\<open>data sample\<close>\<close>
  "column_detail rows i col =
     (let sample_values =
            concat (map (\<lambda>row. if i < length row
                               then [case row ! i of None \<Rightarrow> ''NULL'' | Some val \<Rightarrow> val]
                               else []) rows)
      in \<lparr>column_name = cm_name col, data_type = cm_type col,
          data_samples = take 3 sample_values\<rparr>)"

text \<open>
  One pass of the loop over the table names. The local variable \<^verbatim>\<open>rows\<close> is bound only
  when the snippet query succeeds and keeps its value from one pass to the next, so it is
  threaded through: \<open>None\<close> while it is unbound. The result is the table's dictionary, or
  the exception that leaves the pass.
\<close>

definition process_table ::
  "connection \<Rightarrow> db_row list option \<Rightarrow> string
     \<Rightarrow> (py_exc + table_schema) \<times> db_row list option" where
  "process_table conn rows_var table_name =
     (case get_columns conn table_name of
        Inl e \<Rightarrow> (Inl e, rows_var)
      | Inr columns \<Rightarrow>
          (let col_count = length columns in
           case select_count conn table_name of
             Inl e \<Rightarrow> (Inl e, rows_var)
           | Inr row_count_result \<Rightarrow>
               (let row_count = (case row_count_result of Some n \<Rightarrow> n | None \<Rightarrow> 0) in
                case (case select_rows conn table_name of
                        Inr rows \<Rightarrow>
                          Inr (Some (if rows \<noteq> [] then build_snippet columns rows else []),
                               Some rows)
                      | Inl e \<Rightarrow>
                          if is_Exception (exc_class_of e) then Inr (None, rows_var)
                          else Inl e) of
                  Inl e \<Rightarrow> (Inl e, rows_var)
                | Inr (raw_data_snippet, rows_var') \<Rightarrow>
                    (case rows_var' of
                       None \<Rightarrow> (Inl (Exc UnboundLocalError ''rows''), rows_var')
                     | Some rows \<Rightarrow>
                         (let column_details =
                                (if rows \<noteq> []
                                 then map (\<lambda>(i, col). column_detail rows i col)
                                        (enumerate 0 columns)
                                 else [])
                          in (Inr \<lparr>ts_name = table_name,
                                   ts_raw_data_snippet = raw_data_snippet,
                                   ts_row_count = Some row_count,
                                   ts_col_count = Some col_count,
                                   ts_columns = Some column_details,
                                   ts_irregular_judgment = None\<rparr>,
                              rows_var'))))))"

fun read_tables ::
  "connection \<Rightarrow> db_row list option \<Rightarrow> string list \<Rightarrow> py_exc + table_schema list" where
  \<comment> \<open>the loop \<^verbatim>\<open>for table_name in table_names\<close> with its \<^verbatim>\<open>except Exception: continue\<close>\<close>
  "read_tables conn rows_var [] = Inr []"
| "read_tables conn rows_var (table_name # rest) =
     (case process_table conn rows_var table_name of
        (Inl e, rows_var') \<Rightarrow>
          if is_Exception (exc_class_of e) then read_tables conn rows_var' rest else Inl e
      | (Inr table_info, rows_var') \<Rightarrow>
          (case read_tables conn rows_var' rest of
             Inl e \<Rightarrow> Inl e
           | Inr tables_data \<Rightarrow> Inr (table_info # tables_data)))"

text \<open>
  \<^verbatim>\<open>RelationalDatabaseProfiler._read_data\<close>. \<open>create_engine\<close> is the outcome of
  \<^verbatim>\<open>create_engine(self.path, ...)\<close>: the exception it raises, or the engine, which is given
  by the outcome of its \<^verbatim>\<open>connect()\<close>.
\<close>

definition relational_read_data ::
  "string \<Rightarrow> py_exc + (py_exc + connection) \<Rightarrow> py_exc + data_schema" where
  "relational_read_data path create_engine =
     (case create_engine of
        Inl e \<Rightarrow> Inl e
      | Inr engine_connect \<Rightarrow>
          (case engine_connect of
             Inl e \<Rightarrow>
               if is_Exception (exc_class_of e)
               then Inl (Exc ConnectionError (''Failed to connect to database: '' @ exc_message e))
               else Inl e
           | Inr conn \<Rightarrow>
               (case get_table_names conn of
                  Inl e \<Rightarrow> Inl e
                | Inr table_names \<Rightarrow>
                    (case read_tables conn None table_names of
                       Inl e \<Rightarrow> Inl e
                     | Inr tables_data \<Rightarrow>
                         Inr \<lparr>ds_name = path, ds_columns = None,
                              ds_tables = Some tables_data\<rparr>))))"

section \<open>The profile generation lifecycle\<close>

text \<open>
  \<^verbatim>\<open>BaseDataProfiler.generate_profile\<close>. The four stages are parameters, each a value or
  the exception it raises: reading the data, building the content from the prompt and the
  data, the call of the model with the parsing of its reply, and the merge. The \<^verbatim>\<open>try\<close>
  body is \<open>profile_lifecycle\<close>; the handler turns every exception of class
  \<^verbatim>\<open>Exception\<close> into the empty profile \<^verbatim>\<open>{}\<close>, which is \<open>None\<close> here.
\<close>

definition profile_lifecycle ::
  "py_exc + 'd \<Rightarrow> ('d \<Rightarrow> py_exc + 'c) \<Rightarrow> ('c \<Rightarrow> py_exc + json)
     \<Rightarrow> ('d \<Rightarrow> json \<Rightarrow> py_exc + 'p) \<Rightarrow> py_exc + 'p" where
  "profile_lifecycle read_data build_content generate_profile_by_llm wrap_response =
     (case read_data of
        Inl e \<Rightarrow> Inl e
      | Inr data \<Rightarrow>
          (case build_content data of
             Inl e \<Rightarrow> Inl e
           | Inr content \<Rightarrow>
               (case generate_profile_by_llm content of
                  Inl e \<Rightarrow> Inl e
                | Inr res \<Rightarrow> wrap_response data res)))"

definition generate_profile ::
  "py_exc + 'd \<Rightarrow> ('d \<Rightarrow> py_exc + 'c) \<Rightarrow> ('c \<Rightarrow> py_exc + json)
     \<Rightarrow> ('d \<Rightarrow> json \<Rightarrow> py_exc + 'p) \<Rightarrow> py_exc + 'p option" where
  "generate_profile read_data build_content generate_profile_by_llm wrap_response =
     (case profile_lifecycle read_data build_content generate_profile_by_llm wrap_response of
        Inr profile \<Rightarrow> Inr (Some profile)
      | Inl e \<Rightarrow> if is_Exception (exc_class_of e) then Inr None else Inl e)"

section \<open>Truncation of tool responses\<close>

text \<open>
  \<^verbatim>\<open>TextPostHook.truncate_and_save_response\<close>. A content block is a text block or a block
  of another type, of which only the type tag is kept. The budget is an integer. The
  product \<^verbatim>\<open>budget * 0.85\<close> is computed in floating point and cut by \<^verbatim>\<open>int\<close>; for a
  budget below \<open>2 ^ 45\<close> in absolute value that is the exact product \<open>17 * budget / 20\<close>
  rounded toward zero, which \<open>threshold_of\<close> computes.
\<close>

datatype block = TextBlock string | OtherBlock string

datatype content = ContentList "block list" | ContentStr string | ContentOther

record hook_result =
  new_content :: content
  saved_file :: "(string \<times> string) option"

definition append_hint :: string where
  "append_hint = [CHR 0x0A, CHR 0x0A] @ ''[Content is too long and truncated....]''"

definition threshold_of :: "int \<Rightarrow> int" where
  \<comment> \<open>\<^verbatim>\<open>int(budget * 0.85)\<close>\<close>
  "threshold_of budget =
     (if 0 \<le> budget then (budget * 17) div 20 else - ((- budget * 17) div 20))"

definition slice_to :: "string \<Rightarrow> int \<Rightarrow> string" where
  \<comment> \<open>\<^verbatim>\<open>text[:k]\<close>: a negative \<open>k\<close> counts from the end\<close>
  "slice_to text k =
     (if 0 \<le> k then take (nat k) text else take (length text - nat (- k)) text)"

fun is_text :: "block \<Rightarrow> bool" where
  "is_text (TextBlock text) = True"
| "is_text (OtherBlock ty) = False"

fun text_of :: "block \<Rightarrow> string" where
  "text_of (TextBlock text) = text"
| "text_of (OtherBlock ty) = []"

fun truncate_blocks :: "int \<Rightarrow> block list \<Rightarrow> block list \<times> bool" where
  \<comment> \<open>the loop over \<^verbatim>\<open>tool_response.content\<close>: the blocks appended to the new response and
      the flag \<^verbatim>\<open>is_truncated\<close>; a block that is not text is not appended\<close>
  "truncate_blocks budget [] = ([], False)"
| "truncate_blocks budget (OtherBlock ty # rest) = truncate_blocks budget rest"
| "truncate_blocks budget (TextBlock text # rest) =
     (let text_len = int (length text);
          is_truncated = (text_len > budget);
          new_block = (if text_len > budget
                       then TextBlock (slice_to text (threshold_of budget) @ append_hint)
                       else TextBlock text);
          budget' = budget - text_len
      in if budget' \<le> 0 then ([new_block], is_truncated)
         else (case truncate_blocks budget' rest of
                 (blocks, t) \<Rightarrow> (new_block # blocks, is_truncated \<or> t)))"

text \<open>
  Binary floating point, for the cut of a response that is one string:
  \<^verbatim>\<open>int(budget / text_len * len(text) * 0.8)\<close>. \<open>round_double\<close> rounds a rational to the
  nearest number with a 53 bit significand, ties to even, which is what each operation on
  Python floats does to its exact result (no overflow or underflow occurs for lengths and
  budgets below \<open>2 ^ 53\<close>); \<open>trunc_int\<close> is \<^verbatim>\<open>int\<close> on a float.
\<close>

definition pow2 :: "int \<Rightarrow> rat" where
  "pow2 k = (if 0 \<le> k then 2 ^ nat k else 1 / 2 ^ nat (- k))"

definition ilog2 :: "rat \<Rightarrow> int" where
  \<comment> \<open>for a positive \<open>x\<close>, the exponent \<open>e\<close> with \<open>2 ^ e \<le> x < 2 ^ (e + 1)\<close>\<close>
  "ilog2 x =
     (if 1 \<le> x then int (floorlog 2 (nat \<lfloor>x\<rfloor>)) - 1
      else - int (floorlog 2 (nat (\<lceil>1 / x\<rceil> - 1))))"

definition round_half_even :: "rat \<Rightarrow> int" where
  "round_half_even m =
     (let r = \<lfloor>m\<rfloor>; f = m - of_int r
      in if f < 1 / 2 then r else if 1 / 2 < f then r + 1
         else if even r then r else r + 1)"

definition round_double :: "rat \<Rightarrow> rat" where
  "round_double x =
     (if x = 0 then 0
      else (let a = \<bar>x\<bar>; e = ilog2 a; n = round_half_even (a * pow2 (52 - e))
            in sgn x * of_int n * pow2 (e - 52)))"

definition trunc_int :: "rat \<Rightarrow> int" where
  "trunc_int x = (if 0 \<le> x then \<lfloor>x\<rfloor> else \<lceil>x\<rceil>)"

definition str_threshold :: "int \<Rightarrow> nat \<Rightarrow> int" where
  \<comment> \<open>\<^verbatim>\<open>int(budget / text_len * len(text) * 0.8)\<close> for a non-empty text\<close>
  "str_threshold budget text_len =
     trunc_int
       (round_double
          (round_double (round_double (of_int budget / of_nat text_len) * of_nat text_len)
           * round_double (8 / 10)))"

text \<open>
  \<^verbatim>\<open>_save_tmp_file\<close>. Three things outside the repository are parameters. \<open>file_path\<close> is
  the path of the file: the temporary directory, the tool's name and a random suffix.
  \<open>dump_wrapped\<close> gives the text that is written: the \<^verbatim>\<open>json.dumps\<close> of the content, cut at
  each backslash followed by n, each piece refilled by \<^verbatim>\<open>textwrap.fill\<close> to lines of 500
  characters, and joined again; it is not the content itself. \<open>sandbox_write\<close> is the pair
  of sandbox calls that create the directory and write the file: \<open>None\<close> when both return,
  and the exception when one raises, which nothing here catches. The function returns the
  block that points to the file; only the first literal of its long message is an
  f-string. The write, when it is made, is the second component of the result.
\<close>

definition save_message :: "string \<Rightarrow> bool \<Rightarrow> block" where
  \<comment> \<open>the block \<^verbatim>\<open>_save_tmp_file\<close> returns\<close>
  "save_message file_path is_truncated =
     (if is_truncated
      then TextBlock (''Dump the complete long file at '' @ file_path @ ''. ''
             @ ''Don'' @ [CHR 0x27] @ ''t try to read the complete file directly. ''
             @ ''Use '' @ [CHR 0x60] @ ''grep -C 10 '' @ [CHR 0x27] @ ''YOUR_PATTERN''
             @ [CHR 0x27] @ '' {file_path}'' @ [CHR 0x60] @ '' or ''
             @ ''other bash command to extract '' @ ''useful information.'')
      else TextBlock (''Results dumped at '' @ file_path @ ''. ''))"

definition save_tmp_file ::
  "(string \<Rightarrow> string \<Rightarrow> py_exc option) \<Rightarrow> (content \<Rightarrow> string) \<Rightarrow> string \<Rightarrow> content \<Rightarrow> bool
     \<Rightarrow> py_exc + block \<times> (string \<times> string)" where
  "save_tmp_file sandbox_write dump_wrapped file_path response_content is_truncated =
     (let wrapped = dump_wrapped response_content
      in case sandbox_write file_path wrapped of
           Some e \<Rightarrow> Inl e
         | None \<Rightarrow> Inr (save_message file_path is_truncated, (file_path, wrapped)))"

text \<open>
  The hook itself. The field \<open>saved_file\<close> of its result is the write made to the side
  file, if any. In the branch for a response that is one string the file is written before
  the cut is computed, and the division of the cut raises when the string is empty, which
  takes a negative budget. A response that is neither a list nor a string leaves the
  function without a return value, which is \<open>None\<close>.
\<close>

definition truncate_and_save_response ::
  "int \<Rightarrow> bool \<Rightarrow> (string \<Rightarrow> string \<Rightarrow> py_exc option) \<Rightarrow> (content \<Rightarrow> string) \<Rightarrow> string
     \<Rightarrow> content \<Rightarrow> py_exc + hook_result option" where
  "truncate_and_save_response budget auto_save sandbox_write dump_wrapped file_path
       response_content =
     (case response_content of
        ContentList blocks \<Rightarrow>
          (case truncate_blocks budget blocks of
             (new_blocks, is_truncated) \<Rightarrow>
               if auto_save \<or> is_truncated
               then (case save_tmp_file sandbox_write dump_wrapped file_path response_content
                            is_truncated of
                       Inl e \<Rightarrow> Inl e
                     | Inr (save_text_block, written) \<Rightarrow>
                         Inr (Some \<lparr>new_content = ContentList (new_blocks @ [save_text_block]),
                                    saved_file = Some written\<rparr>))
               else Inr (Some \<lparr>new_content = ContentList new_blocks, saved_file = None\<rparr>))
      | ContentStr text \<Rightarrow>
          (let text_len = length text;
               is_truncated = (int text_len > budget)
           in if auto_save \<or> is_truncated
              then (case save_tmp_file sandbox_write dump_wrapped file_path response_content
                           is_truncated of
                      Inl e \<Rightarrow> Inl e
                    | Inr (save_text_block, written) \<Rightarrow>
                        if is_truncated
                        then (if text_len = 0
                              then Inl (Exc ZeroDivisionError ''division by zero'')
                              else Inr (Some \<lparr>new_content =
                                      ContentList
                                        [TextBlock (slice_to text (str_threshold budget text_len)
                                                    @ append_hint),
                                         save_text_block],
                                    saved_file = Some written\<rparr>))
                        else Inr (Some \<lparr>new_content =
                                      ContentList [TextBlock text, save_text_block],
                                    saved_file = Some written\<rparr>))
              else Inr (Some \<lparr>new_content = ContentStr text, saved_file = None\<rparr>))
      | ContentOther \<Rightarrow> Inr None)"

section \<open>Properties of the irregularity predicate\<close>

lemma unnamed_count_filter:
  "unnamed_count cols = length (filter (\<lambda>col. startswith col ''Unnamed'') cols)"
  unfolding unnamed_count_def by (induction cols) simp_all

lemma ratio_ge_half:
  "0 < n \<Longrightarrow> (real s / real n \<ge> 0.5) = (n \<le> 2 * s)"
  by (simp add: field_simps) linarith

text \<open>
  Claim C7. On a non-empty list of column names the predicate returns, without raising,
  whether the number of names that start with "Unnamed" divided by the number of names is
  at least 0.5, which is to say whether twice that number reaches the number of names. In
  particular 2 such names among 4 give true and 2 among 5 give false.
\<close>

theorem is_irregular_ratio:
  "cols \<noteq> [] \<Longrightarrow>
     is_irregular cols =
       Inr (real (length (filter (\<lambda>col. startswith col ''Unnamed'') cols)) / real (length cols) \<ge> 0.5)
   \<and> is_irregular cols =
       Inr (length cols \<le> 2 * length (filter (\<lambda>col. startswith col ''Unnamed'') cols))
   \<and> (length cols = 4 \<and> length (filter (\<lambda>col. startswith col ''Unnamed'') cols) = 2
        \<longrightarrow> is_irregular cols = Inr True)
   \<and> (length cols = 5 \<and> length (filter (\<lambda>col. startswith col ''Unnamed'') cols) = 2
        \<longrightarrow> is_irregular cols = Inr False)"
proof -
  assume ne: "cols \<noteq> []"
  let ?c = "length (filter (\<lambda>col. startswith col ''Unnamed'') cols)"
  have pos: "0 < length cols" using ne by simp
  have a: "is_irregular cols = Inr (real ?c / real (length cols) \<ge> 0.5)"
    using ne by (simp add: is_irregular_def Let_def unnamed_count_filter)
  have b: "is_irregular cols = Inr (length cols \<le> 2 * ?c)"
    unfolding a using ratio_ge_half [OF pos] by simp
  show ?thesis using a b by simp
qed

theorem is_irregular_ratio_witness:
  "[''a'', ''Unnamed: 0'', ''b'', ''Unnamed: 1''] \<noteq> []
   \<and> is_irregular [''a'', ''Unnamed: 0'', ''b'', ''Unnamed: 1''] = Inr True
   \<and> is_irregular [''a'', ''Unnamed: 0'', ''b'', ''Unnamed: 1'', ''c''] = Inr False"
  using is_irregular_ratio [of "[''a'', ''Unnamed: 0'', ''b'', ''Unnamed: 1'']"]
        is_irregular_ratio [of "[''a'', ''Unnamed: 0'', ''b'', ''Unnamed: 1'', ''c'']"]
  by (simp add: startswith_def)

text \<open>
  Claim C10. On the empty list of column names the division by \<^verbatim>\<open>len(cols)\<close> raises
  ZeroDivisionError, and the empty list is the only input on which the predicate raises:
  a caller that passes at least one column never reaches the error.
\<close>

theorem is_irregular_empty:
  "is_irregular [] = Inl (Exc ZeroDivisionError ''division by zero'')
   \<and> (\<forall>cols. (\<exists>e. is_irregular cols = Inl e) = (cols = []))"
  by (auto simp: is_irregular_def Let_def)

section \<open>Properties of the derived names\<close>

lemma char_eq_code: "(c = d) = ((of_char c :: nat) = of_char d)"
  by simp

lemma word_chars_code:
  "(c \<in> word_chars) =
     (let n = (of_char c :: nat) in
      (97 \<le> n \<and> n \<le> 122) \<or> (65 \<le> n \<and> n \<le> 90) \<or> (48 \<le> n \<and> n \<le> 57) \<or> n = 95)"
  unfolding word_chars_def Let_def
  apply (simp only: set_simps insert_iff empty_iff char_eq_code [of c])
  apply simp
  apply arith
  done

lemma head_chars_code:
  "(c \<in> head_chars) =
     (let n = (of_char c :: nat) in (97 \<le> n \<and> n \<le> 122) \<or> (65 \<le> n \<and> n \<le> 90) \<or> n = 95)"
  unfolding head_chars_def Let_def
  apply (simp only: set_simps insert_iff empty_iff char_eq_code [of c])
  apply simp
  apply arith
  done

lemma is_word_char_iff: "is_word_char c = (c \<in> word_chars)"
  unfolding word_chars_code is_word_char_def by (rule refl)

lemma head_char_iff: "(is_word_char c \<and> (isalpha c \<or> c = CHR ''_'')) = (c \<in> head_chars)"
proof -
  have u: "(c = CHR ''_'') = ((of_char c :: nat) = 95)"
    using char_eq_code [of c "CHR ''_''"] by simp
  show ?thesis
    unfolding head_chars_code is_word_char_def isalpha_def Let_def u by arith
qed

lemma unknown_chars: "\<forall>c\<in>set ''unknown''. c \<in> word_chars" "CHR ''u'' \<in> head_chars"
  by (simp_all add: word_chars_code head_chars_code)

lemma underscore_word: "is_word_char (CHR ''_'')"
  by (simp add: is_word_char_def)

lemma sanitize_name_cases:
  "sanitize_name name = ''unknown'' \<and> name = [] \<or>
   (\<exists>s. s \<noteq> [] \<and> sanitize_name name = take 50 s \<and> (\<forall>c\<in>set s. is_word_char c)
        \<and> (isalpha (hd s) \<or> hd s = CHR ''_''))"
proof (cases name)
  case Nil
  then show ?thesis by (simp add: sanitize_name_def)
next
  case (Cons a as)
  define m where "m = map (\<lambda>c. if is_word_char c then c else CHR ''_'') name"
  define s where "s = (case m of [] \<Rightarrow> m
                        | c # _ \<Rightarrow> if \<not> isalpha c \<and> c \<noteq> CHR ''_'' then CHR ''_'' # m else m)"
  have mw: "\<forall>c\<in>set m. is_word_char c"
    unfolding m_def by (auto simp: underscore_word)
  have mne: "m \<noteq> []" unfolding m_def using Cons by simp
  have sne: "s \<noteq> []" using mne unfolding s_def by (cases m) auto
  have sw: "\<forall>c\<in>set s. is_word_char c"
    using mw unfolding s_def by (cases m) (auto simp: underscore_word)
  have sh: "isalpha (hd s) \<or> hd s = CHR ''_''"
    unfolding s_def using mne by (cases m) auto
  have "take 50 s \<noteq> []" using sne by (cases s) auto
  then have "sanitize_name name = take 50 s"
    unfolding sanitize_name_def Let_def m_def [symmetric] s_def [symmetric] by simp
  then show ?thesis using sne sw sh by blast
qed

text \<open>
  Claim C8. For every input string the sanitized name is non-empty, has at most 50
  characters, consists of ASCII letters, digits and underscores only, and starts with an
  ASCII letter or an underscore; the empty input, the one whose sanitized text is empty,
  gives "unknown".
\<close>

theorem sanitize_name_safe:
  "sanitize_name name \<noteq> []
   \<and> length (sanitize_name name) \<le> 50
   \<and> (\<forall>c\<in>set (sanitize_name name). c \<in> word_chars)
   \<and> hd (sanitize_name name) \<in> head_chars
   \<and> sanitize_name [] = ''unknown''"
proof -
  have u: "sanitize_name [] = ''unknown''" by (simp add: sanitize_name_def)
  from sanitize_name_cases [of name] show ?thesis
  proof
    assume "sanitize_name name = ''unknown'' \<and> name = []"
    then have un: "sanitize_name name = ''unknown''" by (rule conjunct1)
    show ?thesis unfolding un using u unknown_chars by simp
  next
    assume "\<exists>s. s \<noteq> [] \<and> sanitize_name name = take 50 s \<and> (\<forall>c\<in>set s. is_word_char c)
        \<and> (isalpha (hd s) \<or> hd s = CHR ''_'')"
    then obtain s where sne: "s \<noteq> []" and eq: "sanitize_name name = take 50 s"
      and sw: "\<forall>c\<in>set s. is_word_char c" and sh: "isalpha (hd s) \<or> hd s = CHR ''_''"
      by blast
    have ne: "sanitize_name name \<noteq> []" using sne eq by (cases s) auto
    have len: "length (sanitize_name name) \<le> 50" using eq by simp
    have all: "\<forall>c\<in>set (sanitize_name name). c \<in> word_chars"
      using sw eq is_word_char_iff by (auto dest: in_set_takeD)
    have hdeq: "hd (sanitize_name name) = hd s" using sne eq by (cases s) auto
    have "is_word_char (hd s)" using sw sne by (cases s) auto
    then have hd: "hd (sanitize_name name) \<in> head_chars"
      using sh hdeq head_char_iff [of "hd s"] by simp
    show ?thesis using ne len all hd u by blast
  qed
qed

theorem sanitize_name_safe_witness:
  "sanitize_name ''9 lives!'' = ''_9_lives_'' \<and> sanitize_name ''9 lives!'' \<noteq> []
   \<and> length (sanitize_name ''9 lives!'') \<le> 50
   \<and> hd (sanitize_name ''9 lives!'') = CHR ''_''"
  using sanitize_name_safe [of "''9 lives!''"]
  by (simp add: sanitize_name_def is_word_char_def isalpha_def)

text \<open>
  Claim C9. When the endpoint \<^verbatim>\<open>postgresql://u:p@host:5432/my_db?x=1\<close> is not the path of
  an existing file, the derived name is exactly \<^verbatim>\<open>postgresql_my_db\<close>: the password is cut
  from the authority part and the query string is cut from the last path segment before
  the name is assembled.
\<close>

theorem generate_name_postgresql:
  "\<not> isfile ''postgresql://u:p@host:5432/my_db?x=1'' \<Longrightarrow>
     generate_name isfile urlparse ''postgresql://u:p@host:5432/my_db?x=1'' = ''postgresql_my_db''
   \<and> strip_password ''u:p@host:5432/my_db?x=1'' = Some ''u@host:5432/my_db?x=1''
   \<and> extract_db_name ''u@host:5432/my_db?x=1'' = Some ''my_db''"
proof -
  assume nf: "\<not> isfile ''postgresql://u:p@host:5432/my_db?x=1''"
  have sp: "strip_password ''u:p@host:5432/my_db?x=1'' = Some ''u@host:5432/my_db?x=1''"
    by code_simp
  have ex: "extract_db_name ''u@host:5432/my_db?x=1'' = Some ''my_db''"
    by code_simp
  have db: "db_url_name ''postgresql://u:p@host:5432/my_db?x=1'' = Some ''postgresql_my_db''"
    by code_simp
  have ind: "list_ex (\<lambda>indicator. py_in indicator (lower ''postgresql://u:p@host:5432/my_db?x=1''))
               db_indicators"
    by code_simp
  have inn: "py_in ''://'' ''postgresql://u:p@host:5432/my_db?x=1''"
    by code_simp
  show ?thesis
    unfolding generate_name_def Let_def using nf sp ex db ind inn by simp
qed

theorem generate_name_postgresql_witness:
  "\<not> (\<lambda>p. False) ''postgresql://u:p@host:5432/my_db?x=1''
   \<and> generate_name (\<lambda>p. False) (\<lambda>u. None) ''postgresql://u:p@host:5432/my_db?x=1''
       = ''postgresql_my_db''"
  using generate_name_postgresql [of "\<lambda>p. False" "\<lambda>u. None"] by simp

section \<open>Properties of schema extraction\<close>

lemma collect_over: "1000 < n \<Longrightarrow> collect_samples n ss = []"
  by (induction ss arbitrary: n) (auto simp: Let_def)

lemma collect_samples_prefix: "prefix (collect_samples n ss) ss"
proof (induction ss arbitrary: n)
  case Nil
  then show ?case by simp
next
  case (Cons s ss)
  show ?case
  proof (cases "n + length s \<le> 1000")
    case True
    then show ?thesis using Cons.IH [of "n + length s"] by (simp add: Let_def)
  next
    case False
    then have "collect_samples (n + length s) ss = []" by (intro collect_over) simp
    with False show ?thesis by (simp add: Let_def)
  qed
qed

lemma collect_samples_budget:
  "collect_samples n ss \<noteq> [] \<Longrightarrow> n + sum_list (map length (collect_samples n ss)) \<le> 1000"
proof (induction ss arbitrary: n)
  case Nil
  then show ?case by simp
next
  case (Cons s ss)
  show ?case
  proof (cases "n + length s \<le> 1000")
    case True
    show ?thesis
    proof (cases "collect_samples (n + length s) ss = []")
      case True
      with \<open>n + length s \<le> 1000\<close> show ?thesis by (simp add: Let_def)
    next
      case False
      from Cons.IH [OF False] \<open>n + length s \<le> 1000\<close> show ?thesis by (simp add: Let_def)
    qed
  next
    case False
    then have "collect_samples (n + length s) ss = []" by (intro collect_over) simp
    with False Cons.prems show ?thesis by (simp add: Let_def)
  qed
qed

lemma collect_samples_stop:
  "length (collect_samples n ss) < length ss \<Longrightarrow>
     1000 < n + sum_list (map length (take (Suc (length (collect_samples n ss))) ss))"
proof (induction ss arbitrary: n)
  case Nil
  then show ?case by simp
next
  case (Cons s ss)
  show ?case
  proof (cases "n + length s \<le> 1000")
    case True
    then have eq: "collect_samples n (s # ss) = s # collect_samples (n + length s) ss"
      by (simp add: Let_def)
    from Cons.prems eq have "length (collect_samples (n + length s) ss) < length ss" by simp
    from Cons.IH [OF this] show ?thesis unfolding eq by (simp add: add.assoc)
  next
    case False
    then have "collect_samples (n + length s) ss = []" by (intro collect_over) simp
    with False show ?thesis by (simp add: Let_def)
  qed
qed


text \<open>
  Claim C6. Every column descriptor of an extracted table schema comes from a column of the
  frame, and its samples are a prefix of the deduplicated, shuffled and stringified values
  of that column, number at most 5 and have lengths that sum to at most 1000; when fewer
  samples than candidates are kept, the kept ones and the next candidate together exceed
  1000 characters, so nothing is appended once the running total has passed the budget.
\<close>

theorem samples_within_budget:
  assumes "ts_columns (extract_schema_from_table shuffle astype_str to_csv df df_name) = Some cols"
    and "d \<in> set cols"
  shows "\<exists>col \<in> set (df_columns df).
           column_name d = col_label col
         \<and> prefix (data_samples d) (map astype_str (shuffle (drop_duplicates (col_cells col))))
         \<and> length (data_samples d) \<le> 5
         \<and> sum_list (map length (data_samples d)) \<le> 1000
         \<and> (length (data_samples d) < length (column_candidates shuffle astype_str col) \<longrightarrow>
              1000 < sum_list (map length
                       (take (Suc (length (data_samples d))) (column_candidates shuffle astype_str col))))"
proof -
  from assms(1) have "cols = map (describe_column shuffle astype_str) (df_columns df)"
    by (simp add: extract_schema_from_table_def Let_def)
  with assms(2) obtain col where col: "col \<in> set (df_columns df)"
    and d: "d = describe_column shuffle astype_str col" by auto
  let ?cands = "column_candidates shuffle astype_str col"
  let ?all = "map astype_str (shuffle (drop_duplicates (col_cells col)))"
  have samples: "data_samples d = collect_samples 0 ?cands"
    by (simp add: d describe_column_def)
  have p1: "prefix (data_samples d) ?cands"
    unfolding samples by (rule collect_samples_prefix)
  have "prefix ?cands ?all"
    unfolding column_candidates_def by (intro map_mono_prefix take_is_prefix)
  with p1 have p2: "prefix (data_samples d) ?all" by (rule prefix_order.trans)
  have "length ?cands \<le> 5" by (simp add: column_candidates_def)
  with p1 have l: "length (data_samples d) \<le> 5"
    using prefix_length_le by fastforce
  have b: "sum_list (map length (data_samples d)) \<le> 1000"
  proof (cases "collect_samples 0 ?cands = []")
    case True
    then show ?thesis by (simp add: samples)
  next
    case False
    from collect_samples_budget [OF False] show ?thesis by (simp add: samples)
  qed
  have st: "length (data_samples d) < length ?cands \<longrightarrow>
              1000 < sum_list (map length (take (Suc (length (data_samples d))) ?cands))"
    unfolding samples using collect_samples_stop [of 0 ?cands] by simp
  have n: "column_name d = col_label col" by (simp add: d describe_column_def)
  from col n p2 l b st show ?thesis by blast
qed

theorem samples_within_budget_witness:
  "ts_columns (extract_schema_from_table rev (\<lambda>s. s) (\<lambda>f. [])
                 \<lparr>df_len = 3, df_columns = [\<lparr>col_label = ''city'', col_dtype = ''string'',
                                            col_cells = [''Oslo'', ''Rome'', ''Oslo'']\<rparr>]\<rparr> ''t'')
     = Some [\<lparr>column_name = ''city'', data_type = ''STRING'', data_samples = [''Rome'', ''Oslo'']\<rparr>]
   \<and> sum_list (map length [''Rome'', ''Oslo'']) \<le> (1000 :: nat)"
proof -
  have a: "ts_columns (extract_schema_from_table rev (\<lambda>s. s) (\<lambda>f. [])
                 \<lparr>df_len = 3, df_columns = [\<lparr>col_label = ''city'', col_dtype = ''string'',
                                            col_cells = [''Oslo'', ''Rome'', ''Oslo'']\<rparr>]\<rparr> ''t'')
     = Some [\<lparr>column_name = ''city'', data_type = ''STRING'', data_samples = [''Rome'', ''Oslo'']\<rparr>]"
    by code_simp
  have b: "\<lparr>column_name = ''city'', data_type = ''STRING'', data_samples = [''Rome'', ''Oslo'']\<rparr>
             \<in> set [\<lparr>column_name = ''city'', data_type = ''STRING'', data_samples = [''Rome'', ''Oslo'']\<rparr>]"
    by simp
  from samples_within_budget [OF a b] a show ?thesis by simp
qed

text \<open>
  Claim C5, as amended. The irregularity predicate is true on the three column names
  \<^verbatim>\<open>id, Unnamed: 0, Unnamed: 1\<close>, and the CSV path does not consult it: whenever both reads
  of the file succeed, the result is the direct schema extraction of the frame with the
  row count replaced by the full count, and it carries no irregular judgment.
\<close>

theorem csv_read_data_direct:
  "is_irregular [''id'', ''Unnamed: 0'', ''Unnamed: 1''] = Inr True
   \<and> csv_read_data shuffle astype_str to_csv file_name (Inr row_count) (Inr df)
       = Inr ((extract_schema_from_table shuffle astype_str to_csv df file_name)
                \<lparr>ts_row_count := Some row_count\<rparr>)
   \<and> ts_irregular_judgment
       ((extract_schema_from_table shuffle astype_str to_csv df file_name)
          \<lparr>ts_row_count := Some row_count\<rparr>) = None"
proof -
  have "is_irregular [''id'', ''Unnamed: 0'', ''Unnamed: 1''] = Inr True"
    by (simp add: is_irregular_def unnamed_count_def startswith_def)
  then show ?thesis
    by (simp add: csv_read_data_def extract_schema_from_table_def Let_def)
qed

text \<open>
  Claim C5 as stated fails: on a frame with the columns \<^verbatim>\<open>id, Unnamed: 0, Unnamed: 1\<close>
  the predicate is true and the CSV path still returns the directly extracted schema.
\<close>

theorem csv_irregular_counterexample:
  "is_irregular (map col_label
       [\<lparr>col_label = ''id'', col_dtype = ''Int64'', col_cells = [1, 2 :: int]\<rparr>,
        \<lparr>col_label = ''Unnamed: 0'', col_dtype = ''Int64'', col_cells = [7, 7]\<rparr>,
        \<lparr>col_label = ''Unnamed: 1'', col_dtype = ''Int64'', col_cells = [8, 9]\<rparr>]) = Inr True
   \<and> csv_read_data (\<lambda>xs. xs) (\<lambda>v. if v < 5 then ''low'' else ''high'') (\<lambda>f. ''snippet'') ''f.csv'' (Inr 2)
       (Inr \<lparr>df_len = 2, df_columns =
         [\<lparr>col_label = ''id'', col_dtype = ''Int64'', col_cells = [1, 2 :: int]\<rparr>,
          \<lparr>col_label = ''Unnamed: 0'', col_dtype = ''Int64'', col_cells = [7, 7]\<rparr>,
          \<lparr>col_label = ''Unnamed: 1'', col_dtype = ''Int64'', col_cells = [8, 9]\<rparr>]\<rparr>)
     = Inr \<lparr>ts_name = ''f.csv'', ts_raw_data_snippet = Some ''snippet'', ts_row_count = Some 2,
            ts_col_count = Some 3,
            ts_columns = Some
              [\<lparr>column_name = ''id'', data_type = ''INT64'', data_samples = [''low'', ''low'']\<rparr>,
               \<lparr>column_name = ''Unnamed: 0'', data_type = ''INT64'', data_samples = [''high'']\<rparr>,
               \<lparr>column_name = ''Unnamed: 1'', data_type = ''INT64'', data_samples = [''high'', ''high'']\<rparr>],
            ts_irregular_judgment = None\<rparr>"
  by code_simp

section \<open>Properties of the merge\<close>

lemma build_res_des_map_pairs:
  "build_res_des_map entries = Inr m \<Longrightarrow>
     list_all2 (\<lambda>e kv. py_getitem e ''name'' = Inr (fst kv)
                      \<and> py_getitem e ''description'' = Inr (snd kv)) entries m"
proof (induction entries arbitrary: m)
  case Nil
  then show ?case by simp
next
  case (Cons e es)
  then show ?case
    by (auto split: sum.splits if_splits)
qed

lemma res_des_lookup_None:
  "(res_des_lookup m n = None) = (JStr n \<notin> fst ` set m)"
  by (simp add: res_des_lookup_def map_of_eq_None_iff)

lemma res_des_lookup_Some:
  "res_des_lookup m n = Some d \<Longrightarrow> (JStr n, d) \<in> set m"
  unfolding res_des_lookup_def by (drule map_of_SomeD) simp

lemma merge_tables_rel:
  "list_all2 (\<lambda>t r. mt_name r = ts_name t
                   \<and> mt_columns r = ts_columns t
                   \<and> mt_irregular_judgment r = ts_irregular_judgment t
                   \<and> res_des_lookup m (ts_name t) = Some (mt_description r))
     (filter (\<lambda>t. res_des_lookup m (ts_name t) \<noteq> None) ts) (merge_tables m ts)"
  by (induction ts) (auto split: option.splits)

lemma pairs_from_entries:
  assumes "list_all2 (\<lambda>e kv. py_getitem e ''name'' = Inr (fst kv)
                      \<and> py_getitem e ''description'' = Inr (snd kv)) entries m"
  shows "((k, v) \<in> set m) =
           (\<exists>e \<in> set entries. py_getitem e ''name'' = Inr k \<and> py_getitem e ''description'' = Inr v)"
  using assms
proof (induction entries m rule: list_all2_induct)
  case Nil
  then show ?case by simp
next
  case (Cons e es kv kvs)
  then show ?case by (cases kv) auto
qed

lemma names_from_entries:
  assumes "list_all2 (\<lambda>e kv. py_getitem e ''name'' = Inr (fst kv)
                      \<and> py_getitem e ''description'' = Inr (snd kv)) entries m"
  shows "(k \<in> fst ` set m) = (\<exists>e \<in> set entries. py_getitem e ''name'' = Inr k)"
  using assms
proof (induction entries m rule: list_all2_induct)
  case Nil
  then show ?case by simp
next
  case (Cons e es kv kvs)
  then show ?case by (cases kv) auto
qed

lemma wrap_data_response_Inr:
  assumes "wrap_data_response data response = Inr p"
    and "ds_tables data = Some tables"
    and "pf_tables p = Some out"
  shows "\<exists>response_tables entries m.
           py_getitem response ''tables'' = Inr response_tables
         \<and> py_iter response_tables = Inr entries
         \<and> build_res_des_map entries = Inr m
         \<and> out = merge_tables m tables"
  using assms unfolding wrap_data_response_def Let_def
  by (auto split: sum.splits bool.splits)

lemma wrap_data_response_top:
  assumes "wrap_data_response data response = Inr p"
  shows "pf_name p = ds_name data \<and> pf_columns p = ds_columns data
       \<and> py_getitem response ''description'' = Inr (pf_description p)"
  using assms unfolding wrap_data_response_def Let_def
  by (auto split: sum.splits bool.splits option.splits)

lemma wrap_data_response_merged:
  assumes "wrap_data_response data response = Inr p"
    and "ds_tables data = Some tables"
    and "pf_tables p = Some out"
  shows "\<exists>response_tables entries.
           py_getitem response ''tables'' = Inr response_tables
         \<and> py_iter response_tables = Inr entries
         \<and> list_all2
             (\<lambda>t r. mt_name r = ts_name t
                   \<and> mt_columns r = ts_columns t
                   \<and> mt_irregular_judgment r = ts_irregular_judgment t
                   \<and> (\<exists>e \<in> set entries. py_getitem e ''name'' = Inr (JStr (ts_name t))
                                       \<and> py_getitem e ''description'' = Inr (mt_description r)))
             (filter (\<lambda>t. \<exists>e \<in> set entries. py_getitem e ''name'' = Inr (JStr (ts_name t))) tables)
             out
         \<and> pf_name p = ds_name data
         \<and> pf_columns p = ds_columns data
         \<and> py_getitem response ''description'' = Inr (pf_description p)"
proof -
  from wrap_data_response_Inr [OF assms] obtain response_tables entries m
    where rt: "py_getitem response ''tables'' = Inr response_tables"
      and en: "py_iter response_tables = Inr entries"
      and m: "build_res_des_map entries = Inr m"
      and out: "out = merge_tables m tables"
    by blast
  note pairs = build_res_des_map_pairs [OF m]
  have keep: "\<And>t. (res_des_lookup m (ts_name t) \<noteq> None) =
                    (\<exists>e \<in> set entries. py_getitem e ''name'' = Inr (JStr (ts_name t)))"
    using res_des_lookup_None [of m] names_from_entries [OF pairs] by simp
  have desc: "\<And>t d. res_des_lookup m (ts_name t) = Some d \<Longrightarrow>
                 \<exists>e \<in> set entries. py_getitem e ''name'' = Inr (JStr (ts_name t))
                                 \<and> py_getitem e ''description'' = Inr d"
    using res_des_lookup_Some pairs_from_entries [OF pairs] by blast
  have "list_all2
             (\<lambda>t r. mt_name r = ts_name t
                   \<and> mt_columns r = ts_columns t
                   \<and> mt_irregular_judgment r = ts_irregular_judgment t
                   \<and> (\<exists>e \<in> set entries. py_getitem e ''name'' = Inr (JStr (ts_name t))
                                       \<and> py_getitem e ''description'' = Inr (mt_description r)))
             (filter (\<lambda>t. res_des_lookup m (ts_name t) \<noteq> None) tables) out"
    unfolding out
    by (rule list_all2_mono [OF merge_tables_rel]) (use desc in blast)
  then have rel: "list_all2
             (\<lambda>t r. mt_name r = ts_name t
                   \<and> mt_columns r = ts_columns t
                   \<and> mt_irregular_judgment r = ts_irregular_judgment t
                   \<and> (\<exists>e \<in> set entries. py_getitem e ''name'' = Inr (JStr (ts_name t))
                                       \<and> py_getitem e ''description'' = Inr (mt_description r)))
             (filter (\<lambda>t. \<exists>e \<in> set entries. py_getitem e ''name'' = Inr (JStr (ts_name t))) tables)
             out"
    unfolding keep .
  from rt en rel wrap_data_response_top [OF assms(1)] show ?thesis by blast
qed



lemma build_res_des_map_total:
  "\<forall>e \<in> set entries. \<exists>k d. py_getitem e ''name'' = Inr k \<and> hashable k
                              \<and> py_getitem e ''description'' = Inr d \<Longrightarrow>
     \<exists>m. build_res_des_map entries = Inr m"
proof (induction entries)
  case Nil
  then show ?case by simp
next
  case (Cons e es)
  then obtain m where "build_res_des_map es = Inr m" by auto
  moreover from Cons.prems obtain k d where "py_getitem e ''name'' = Inr k" "hashable k"
    "py_getitem e ''description'' = Inr d" by auto
  ultimately show ?case by simp
qed

lemma py_getitem_has_key:
  "py_getitem response k = Inr v \<Longrightarrow> py_has_key k response = Inr True"
  by (cases response) (auto split: option.splits)

lemma wrap_data_response_well_formed:
  assumes "ds_tables data = Some tables"
    and "py_getitem response ''description'' = Inr description"
    and "py_getitem response ''tables'' = Inr response_tables"
    and "py_iter response_tables = Inr entries"
    and "\<forall>e \<in> set entries. \<exists>k d. py_getitem e ''name'' = Inr k \<and> hashable k
                                  \<and> py_getitem e ''description'' = Inr d"
  shows "\<exists>merged. wrap_data_response data response
              = Inr \<lparr>pf_name = ds_name data, pf_description = description,
                     pf_columns = ds_columns data, pf_tables = Some merged\<rparr>"
proof -
  from build_res_des_map_total [OF assms(5)] obtain m where
    m: "build_res_des_map entries = Inr m" by blast
  from py_getitem_has_key [OF assms(3)] have hk: "py_has_key ''tables'' response = Inr True" .
  show ?thesis
    unfolding wrap_data_response_def Let_def
    by (simp add: assms(1-4) m hk)
qed

text \<open>
  Claim C4. Whenever the merge returns a profile with a table list for a structural schema
  with tables, that list pairs off, in order, with the original tables whose name is the
  name of an entry of the response's table list: each merged table has the name, the
  columns and the irregular judgment of its original table unchanged, and a description
  that an entry of that name gives in the response. Original tables the response does not
  name are left out without an error, and the top-level name and flat column list are
  those of the schema, so no column appears that the structural extraction did not produce.
  The merge does return such a profile whenever the response has a description and a table
  list whose entries each have a hashable name and a description; and when the response
  has a description and no table list, it returns the profile without a table list.
\<close>

theorem wrap_data_response_tables:
  "(wrap_data_response data response = Inr p \<and> ds_tables data = Some tables
     \<and> pf_tables p = Some out \<longrightarrow>
      (\<exists>response_tables entries.
           py_getitem response ''tables'' = Inr response_tables
         \<and> py_iter response_tables = Inr entries
         \<and> list_all2
             (\<lambda>t r. mt_name r = ts_name t
                   \<and> mt_columns r = ts_columns t
                   \<and> mt_irregular_judgment r = ts_irregular_judgment t
                   \<and> (\<exists>e \<in> set entries. py_getitem e ''name'' = Inr (JStr (ts_name t))
                                       \<and> py_getitem e ''description'' = Inr (mt_description r)))
             (filter (\<lambda>t. \<exists>e \<in> set entries. py_getitem e ''name'' = Inr (JStr (ts_name t))) tables)
             out
         \<and> pf_name p = ds_name data
         \<and> pf_columns p = ds_columns data
         \<and> py_getitem response ''description'' = Inr (pf_description p)))
   \<and> (ds_tables data = Some tables
       \<and> py_getitem response ''description'' = Inr description
       \<and> py_getitem response ''tables'' = Inr response_tables
       \<and> py_iter response_tables = Inr entries
       \<and> (\<forall>e \<in> set entries. \<exists>k d. py_getitem e ''name'' = Inr k \<and> hashable k
                                  \<and> py_getitem e ''description'' = Inr d) \<longrightarrow>
        (\<exists>merged. wrap_data_response data response
              = Inr \<lparr>pf_name = ds_name data, pf_description = description,
                     pf_columns = ds_columns data, pf_tables = Some merged\<rparr>))
   \<and> (ds_tables data = Some tables
       \<and> py_getitem response ''description'' = Inr description
       \<and> py_has_key ''tables'' response = Inr False \<longrightarrow>
        wrap_data_response data response
          = Inr \<lparr>pf_name = ds_name data, pf_description = description,
                 pf_columns = ds_columns data, pf_tables = None\<rparr>)"
proof -
  have a: "wrap_data_response data response = Inr p \<and> ds_tables data = Some tables
     \<and> pf_tables p = Some out \<longrightarrow>
      (\<exists>response_tables entries.
           py_getitem response ''tables'' = Inr response_tables
         \<and> py_iter response_tables = Inr entries
         \<and> list_all2
             (\<lambda>t r. mt_name r = ts_name t
                   \<and> mt_columns r = ts_columns t
                   \<and> mt_irregular_judgment r = ts_irregular_judgment t
                   \<and> (\<exists>e \<in> set entries. py_getitem e ''name'' = Inr (JStr (ts_name t))
                                       \<and> py_getitem e ''description'' = Inr (mt_description r)))
             (filter (\<lambda>t. \<exists>e \<in> set entries. py_getitem e ''name'' = Inr (JStr (ts_name t))) tables)
             out
         \<and> pf_name p = ds_name data
         \<and> pf_columns p = ds_columns data
         \<and> py_getitem response ''description'' = Inr (pf_description p))"
    using wrap_data_response_merged [of data response p tables out] by blast
  have b: "ds_tables data = Some tables
       \<and> py_getitem response ''description'' = Inr description
       \<and> py_getitem response ''tables'' = Inr response_tables
       \<and> py_iter response_tables = Inr entries
       \<and> (\<forall>e \<in> set entries. \<exists>k d. py_getitem e ''name'' = Inr k \<and> hashable k
                                  \<and> py_getitem e ''description'' = Inr d) \<longrightarrow>
        (\<exists>merged. wrap_data_response data response
              = Inr \<lparr>pf_name = ds_name data, pf_description = description,
                     pf_columns = ds_columns data, pf_tables = Some merged\<rparr>)"
    using wrap_data_response_well_formed [of data tables response description response_tables entries]
    by blast
  have c: "ds_tables data = Some tables
       \<and> py_getitem response ''description'' = Inr description
       \<and> py_has_key ''tables'' response = Inr False \<longrightarrow>
        wrap_data_response data response
          = Inr \<lparr>pf_name = ds_name data, pf_description = description,
                 pf_columns = ds_columns data, pf_tables = None\<rparr>"
    unfolding wrap_data_response_def Let_def by simp
  from a b c show ?thesis by (intro conjI)
qed

theorem wrap_data_response_tables_witness:
  "wrap_data_response
       \<lparr>ds_name = ''book.xlsx'', ds_columns = None,
          ds_tables = Some [\<lparr>ts_name = ''A'', ts_raw_data_snippet = Some '',x'', ts_row_count = Some 1,
                  ts_col_count = Some 1,
                  ts_columns = Some [\<lparr>column_name = ''x'', data_type = ''INT64'', data_samples = [''1'']\<rparr>],
                  ts_irregular_judgment = None\<rparr>,
                 \<lparr>ts_name = ''B'', ts_raw_data_snippet = Some '',y'', ts_row_count = Some 1,
                  ts_col_count = Some 1,
                  ts_columns = Some [\<lparr>column_name = ''y'', data_type = ''STRING'', data_samples = [''u'']\<rparr>],
                  ts_irregular_judgment = None\<rparr>,
                 \<lparr>ts_name = ''C'', ts_raw_data_snippet = Some ''raw'', ts_row_count = None,
                  ts_col_count = None, ts_columns = None,
                  ts_irregular_judgment = Some (JStr ''UNSTRUCTURED'')\<rparr>]\<rparr>
       (JObj [(''description'', JStr ''a workbook''),
              (''tables'', JArr [JObj [(''name'', JStr ''C''), (''description'', JStr ''about C'')],
                                 JObj [(''name'', JStr ''A''), (''description'', JStr ''about A'')]])])
     = Inr \<lparr>pf_name = ''book.xlsx'', pf_description = JStr ''a workbook'', pf_columns = None,
             pf_tables = Some [\<lparr>mt_name = ''A'', mt_description = JStr ''about A'',
                  mt_columns = Some [\<lparr>column_name = ''x'', data_type = ''INT64'', data_samples = [''1'']\<rparr>],
                  mt_irregular_judgment = None\<rparr>,
                \<lparr>mt_name = ''C'', mt_description = JStr ''about C'', mt_columns = None,
                  mt_irregular_judgment = Some (JStr ''UNSTRUCTURED'')\<rparr>]\<rparr>
   \<and> (\<exists>merged. wrap_data_response
       \<lparr>ds_name = ''book.xlsx'', ds_columns = None,
          ds_tables = Some [\<lparr>ts_name = ''A'', ts_raw_data_snippet = Some '',x'', ts_row_count = Some 1,
                  ts_col_count = Some 1,
                  ts_columns = Some [\<lparr>column_name = ''x'', data_type = ''INT64'', data_samples = [''1'']\<rparr>],
                  ts_irregular_judgment = None\<rparr>,
                 \<lparr>ts_name = ''B'', ts_raw_data_snippet = Some '',y'', ts_row_count = Some 1,
                  ts_col_count = Some 1,
                  ts_columns = Some [\<lparr>column_name = ''y'', data_type = ''STRING'', data_samples = [''u'']\<rparr>],
                  ts_irregular_judgment = None\<rparr>,
                 \<lparr>ts_name = ''C'', ts_raw_data_snippet = Some ''raw'', ts_row_count = None,
                  ts_col_count = None, ts_columns = None,
                  ts_irregular_judgment = Some (JStr ''UNSTRUCTURED'')\<rparr>]\<rparr>
       (JObj [(''description'', JStr ''a workbook''),
              (''tables'', JArr [JObj [(''name'', JStr ''C''), (''description'', JStr ''about C'')],
                                 JObj [(''name'', JStr ''A''), (''description'', JStr ''about A'')]])])
              = Inr \<lparr>pf_name = ''book.xlsx'', pf_description = JStr ''a workbook'',
                     pf_columns = None, pf_tables = Some merged\<rparr>)
   \<and> py_getitem (JObj [(''description'', JStr ''a workbook''),
              (''tables'', JArr [JObj [(''name'', JStr ''C''), (''description'', JStr ''about C'')],
                                 JObj [(''name'', JStr ''A''), (''description'', JStr ''about A'')]])]) ''description'' = Inr (JStr ''a workbook'')"
proof -
  let ?data = "\<lparr>ds_name = ''book.xlsx'', ds_columns = None,
          ds_tables = Some [\<lparr>ts_name = ''A'', ts_raw_data_snippet = Some '',x'', ts_row_count = Some 1,
                  ts_col_count = Some 1,
                  ts_columns = Some [\<lparr>column_name = ''x'', data_type = ''INT64'', data_samples = [''1'']\<rparr>],
                  ts_irregular_judgment = None\<rparr>,
                 \<lparr>ts_name = ''B'', ts_raw_data_snippet = Some '',y'', ts_row_count = Some 1,
                  ts_col_count = Some 1,
                  ts_columns = Some [\<lparr>column_name = ''y'', data_type = ''STRING'', data_samples = [''u'']\<rparr>],
                  ts_irregular_judgment = None\<rparr>,
                 \<lparr>ts_name = ''C'', ts_raw_data_snippet = Some ''raw'', ts_row_count = None,
                  ts_col_count = None, ts_columns = None,
                  ts_irregular_judgment = Some (JStr ''UNSTRUCTURED'')\<rparr>]\<rparr>"
  let ?response = "(JObj [(''description'', JStr ''a workbook''),
              (''tables'', JArr [JObj [(''name'', JStr ''C''), (''description'', JStr ''about C'')],
                                 JObj [(''name'', JStr ''A''), (''description'', JStr ''about A'')]])])"
  let ?tables = "[\<lparr>ts_name = ''A'', ts_raw_data_snippet = Some '',x'', ts_row_count = Some 1,
                  ts_col_count = Some 1,
                  ts_columns = Some [\<lparr>column_name = ''x'', data_type = ''INT64'', data_samples = [''1'']\<rparr>],
                  ts_irregular_judgment = None\<rparr>,
                 \<lparr>ts_name = ''B'', ts_raw_data_snippet = Some '',y'', ts_row_count = Some 1,
                  ts_col_count = Some 1,
                  ts_columns = Some [\<lparr>column_name = ''y'', data_type = ''STRING'', data_samples = [''u'']\<rparr>],
                  ts_irregular_judgment = None\<rparr>,
                 \<lparr>ts_name = ''C'', ts_raw_data_snippet = Some ''raw'', ts_row_count = None,
                  ts_col_count = None, ts_columns = None,
                  ts_irregular_judgment = Some (JStr ''UNSTRUCTURED'')\<rparr>]"
  let ?out = "[\<lparr>mt_name = ''A'', mt_description = JStr ''about A'',
                  mt_columns = Some [\<lparr>column_name = ''x'', data_type = ''INT64'', data_samples = [''1'']\<rparr>],
                  mt_irregular_judgment = None\<rparr>,
                \<lparr>mt_name = ''C'', mt_description = JStr ''about C'', mt_columns = None,
                  mt_irregular_judgment = Some (JStr ''UNSTRUCTURED'')\<rparr>]"
  let ?p = "\<lparr>pf_name = ''book.xlsx'', pf_description = JStr ''a workbook'', pf_columns = None,
             pf_tables = Some [\<lparr>mt_name = ''A'', mt_description = JStr ''about A'',
                  mt_columns = Some [\<lparr>column_name = ''x'', data_type = ''INT64'', data_samples = [''1'']\<rparr>],
                  mt_irregular_judgment = None\<rparr>,
                \<lparr>mt_name = ''C'', mt_description = JStr ''about C'', mt_columns = None,
                  mt_irregular_judgment = Some (JStr ''UNSTRUCTURED'')\<rparr>]\<rparr>"
  let ?entries = "[JObj [(''name'', JStr ''C''), (''description'', JStr ''about C'')],
                                 JObj [(''name'', JStr ''A''), (''description'', JStr ''about A'')]]"
  note merge = wrap_data_response_tables
         [where data = ?data and response = ?response and tables = ?tables and p = ?p
            and out = ?out and description = "JStr ''a workbook''"
            and response_tables = "JArr ?entries" and entries = ?entries]
  have a: "wrap_data_response ?data ?response = Inr ?p"
    by code_simp
  have well: "ds_tables ?data = Some ?tables
       \<and> py_getitem ?response ''description'' = Inr (JStr ''a workbook'')
       \<and> py_getitem ?response ''tables'' = Inr (JArr ?entries)
       \<and> py_iter (JArr ?entries) = Inr ?entries
       \<and> (\<forall>e \<in> set ?entries. \<exists>k d. py_getitem e ''name'' = Inr k \<and> hashable k
                                  \<and> py_getitem e ''description'' = Inr d)"
    by simp
  have sel: "ds_tables ?data = Some ?tables \<and> pf_tables ?p = Some ?out" by simp
  from merge well have b: "\<exists>merged. wrap_data_response ?data ?response
              = Inr \<lparr>pf_name = ds_name ?data, pf_description = JStr ''a workbook'',
                     pf_columns = ds_columns ?data, pf_tables = Some merged\<rparr>"
    by blast
  from merge a sel have "py_getitem ?response ''description'' = Inr (pf_description ?p)"
    by blast
  then have c: "py_getitem ?response ''description'' = Inr (JStr ''a workbook'')" by simp
  from b have b': "\<exists>merged. wrap_data_response ?data ?response
              = Inr \<lparr>pf_name = ''book.xlsx'', pf_description = JStr ''a workbook'',
                     pf_columns = None, pf_tables = Some merged\<rparr>"
    by simp
  from a b' c show ?thesis by (intro conjI)
qed

section \<open>Properties of the relational introspection\<close>

lemma process_table_fail:
  "isl (get_columns conn n) \<or> isl (select_count conn n) \<Longrightarrow>
     \<exists>e. process_table conn rv n = (Inl e, rv)"
  unfolding process_table_def Let_def
  by (cases "get_columns conn n"; cases "select_count conn n") auto

lemma column_details_names:
  "map column_name (map (\<lambda>(i, col). column_detail rows i col) (enumerate n columns))
     = map cm_name columns
   \<and> map data_type (map (\<lambda>(i, col). column_detail rows i col) (enumerate n columns))
     = map cm_type columns"
  by (induction columns arbitrary: n) (simp_all add: column_detail_def Let_def)

lemma process_table_ok:
  assumes "process_table conn rv n = (Inr t, rv')"
  shows "ts_name t = n
       \<and> (\<exists>columns c. get_columns conn n = Inr columns \<and> select_count conn n = Inr c
            \<and> ts_col_count t = Some (length columns)
            \<and> ts_row_count t = Some (case c of Some k \<Rightarrow> k | None \<Rightarrow> 0)
            \<and> (\<exists>details. ts_columns t = Some details
                     \<and> (details = []
                          \<or> map column_name details = map cm_name columns
                             \<and> map data_type details = map cm_type columns)))"
  using assms column_details_names unfolding process_table_def Let_def
  by (auto split: sum.splits option.splits if_splits prod.splits)

lemma process_table_total:
  assumes "\<not> isl (get_columns conn n)" "\<not> isl (select_count conn n)" "\<not> isl (select_rows conn n)"
  shows "\<exists>t rv'. process_table conn rv n = (Inr t, rv')"
proof -
  from assms obtain columns c rows where
    "get_columns conn n = Inr columns" "select_count conn n = Inr c" "select_rows conn n = Inr rows"
    by (metis isl_def sum.exhaust_sel sum.collapse(2))
  then show ?thesis unfolding process_table_def Let_def by simp
qed

lemma read_tables_subseq:
  "read_tables conn rv names = Inr out \<Longrightarrow>
     subseq (map ts_name out)
       (filter (\<lambda>n. \<not> isl (get_columns conn n) \<and> \<not> isl (select_count conn n)) names)"
proof (induction names arbitrary: rv out)
  case Nil
  then show ?case by simp
next
  case (Cons n names)
  obtain r rv' where pt: "process_table conn rv n = (r, rv')" by (cases "process_table conn rv n")
  show ?case
  proof (cases r)
    case (Inl e)
    with pt Cons.prems have "read_tables conn rv' names = Inr out"
      by (simp split: if_splits)
    from Cons.IH [OF this] show ?thesis by (auto intro: subseq_Cons')
  next
    case (Inr t)
    with pt Cons.prems obtain out' where rest: "read_tables conn rv' names = Inr out'"
      and out: "out = t # out'" by (auto split: sum.splits)
    from process_table_ok [of conn rv n t rv'] pt Inr
    have t: "ts_name t = n" and ok: "\<not> isl (get_columns conn n) \<and> \<not> isl (select_count conn n)"
      by auto
    from Cons.IH [OF rest] show ?thesis using t ok out by simp
  qed
qed

lemma read_tables_exact:
  "read_tables conn rv names = Inr out \<Longrightarrow> \<forall>n\<in>set names. \<not> isl (select_rows conn n) \<Longrightarrow>
     map ts_name out =
       filter (\<lambda>n. \<not> isl (get_columns conn n) \<and> \<not> isl (select_count conn n)) names"
proof (induction names arbitrary: rv out)
  case Nil
  then show ?case by simp
next
  case (Cons n names)
  obtain r rv' where pt: "process_table conn rv n = (r, rv')" by (cases "process_table conn rv n")
  from Cons.prems(2) have rows: "\<not> isl (select_rows conn n)"
    and rest_rows: "\<forall>n\<in>set names. \<not> isl (select_rows conn n)" by auto
  show ?case
  proof (cases r)
    case (Inl e)
    with pt Cons.prems(1) have rest: "read_tables conn rv' names = Inr out"
      by (simp split: if_splits)
    have "\<not> (\<not> isl (get_columns conn n) \<and> \<not> isl (select_count conn n))"
    proof
      assume "\<not> isl (get_columns conn n) \<and> \<not> isl (select_count conn n)"
      with rows process_table_total [of conn n rv] pt Inl show False by auto
    qed
    with Cons.IH [OF rest rest_rows] show ?thesis by simp
  next
    case (Inr t)
    with pt Cons.prems(1) obtain out' where rest: "read_tables conn rv' names = Inr out'"
      and out: "out = t # out'" by (auto split: sum.splits)
    from process_table_ok [of conn rv n t rv'] pt Inr
    have t: "ts_name t = n" and ok: "\<not> isl (get_columns conn n) \<and> \<not> isl (select_count conn n)"
      by auto
    from Cons.IH [OF rest rest_rows] show ?thesis using t ok out by simp
  qed
qed

lemma read_tables_fields:
  "read_tables conn rv names = Inr out \<Longrightarrow> t \<in> set out \<Longrightarrow>
     \<exists>columns c. get_columns conn (ts_name t) = Inr columns
        \<and> select_count conn (ts_name t) = Inr c
        \<and> ts_col_count t = Some (length columns)
        \<and> ts_row_count t = Some (case c of Some k \<Rightarrow> k | None \<Rightarrow> 0)
        \<and> (\<exists>details. ts_columns t = Some details
                     \<and> (details = []
                          \<or> map column_name details = map cm_name columns
                             \<and> map data_type details = map cm_type columns))"
proof (induction names arbitrary: rv out)
  case Nil
  then show ?case by simp
next
  case (Cons n names)
  obtain r rv' where pt: "process_table conn rv n = (r, rv')" by (cases "process_table conn rv n")
  show ?case
  proof (cases r)
    case (Inl e)
    with pt Cons.prems(1) have "read_tables conn rv' names = Inr out"
      by (simp split: if_splits)
    from Cons.IH [OF this Cons.prems(2)] show ?thesis .
  next
    case (Inr t')
    with pt Cons.prems(1) obtain out' where rest: "read_tables conn rv' names = Inr out'"
      and out: "out = t' # out'" by (auto split: sum.splits)
    show ?thesis
    proof (cases "t = t'")
      case True
      from process_table_ok [of conn rv n t' rv'] pt Inr True show ?thesis by auto
    next
      case False
      with Cons.prems(2) out have "t \<in> set out'" by simp
      from Cons.IH [OF rest this] show ?thesis .
    qed
  qed
qed

lemma length_filter_compl:
  "length (filter P xs) = length xs - length (filter (\<lambda>x. \<not> P x) xs)"
  using sum_length_filter_compl [of P xs] by simp

lemma relational_tables_listed:
  assumes "relational_read_data path (Inr (Inr conn)) = Inr data"
  shows "\<exists>table_names tables_data.
           get_table_names conn = Inr table_names \<and> ds_tables data = Some tables_data
         \<and> subseq (map ts_name tables_data)
             (filter (\<lambda>n. \<not> isl (get_columns conn n) \<and> \<not> isl (select_count conn n)) table_names)
         \<and> (\<forall>t\<in>set tables_data.
               \<exists>columns c. get_columns conn (ts_name t) = Inr columns
                 \<and> select_count conn (ts_name t) = Inr c
                 \<and> ts_col_count t = Some (length columns)
                 \<and> ts_row_count t = Some (case c of Some k \<Rightarrow> k | None \<Rightarrow> 0)
                 \<and> (\<exists>details. ts_columns t = Some details
                     \<and> (details = []
                          \<or> map column_name details = map cm_name columns
                             \<and> map data_type details = map cm_type columns)))
         \<and> ((\<forall>n\<in>set table_names. \<not> isl (select_rows conn n)) \<longrightarrow>
                map ts_name tables_data =
                  filter (\<lambda>n. \<not> isl (get_columns conn n) \<and> \<not> isl (select_count conn n)) table_names
              \<and> length tables_data =
                  length table_names
                  - length (filter (\<lambda>n. isl (get_columns conn n) \<or> isl (select_count conn n))
                              table_names))"
proof -
  from assms obtain table_names tables_data where
    names: "get_table_names conn = Inr table_names"
    and rt: "read_tables conn None table_names = Inr tables_data"
    and data: "ds_tables data = Some tables_data"
    unfolding relational_read_data_def by (auto split: sum.splits)
  let ?ok = "\<lambda>n. \<not> isl (get_columns conn n) \<and> \<not> isl (select_count conn n)"
  have sub: "subseq (map ts_name tables_data) (filter ?ok table_names)"
    by (rule read_tables_subseq [OF rt])
  have fields: "\<forall>t\<in>set tables_data.
               \<exists>columns c. get_columns conn (ts_name t) = Inr columns
                 \<and> select_count conn (ts_name t) = Inr c
                 \<and> ts_col_count t = Some (length columns)
                 \<and> ts_row_count t = Some (case c of Some k \<Rightarrow> k | None \<Rightarrow> 0)
                 \<and> (\<exists>details. ts_columns t = Some details
                     \<and> (details = []
                          \<or> map column_name details = map cm_name columns
                             \<and> map data_type details = map cm_type columns))"
    using read_tables_fields [OF rt] by blast
  have exact: "(\<forall>n\<in>set table_names. \<not> isl (select_rows conn n)) \<longrightarrow>
                map ts_name tables_data = filter ?ok table_names
              \<and> length tables_data =
                  length table_names
                  - length (filter (\<lambda>n. isl (get_columns conn n) \<or> isl (select_count conn n))
                              table_names)"
  proof
    assume "\<forall>n\<in>set table_names. \<not> isl (select_rows conn n)"
    from read_tables_exact [OF rt this]
    have eq: "map ts_name tables_data = filter ?ok table_names" .
    then have "length tables_data = length (filter ?ok table_names)"
      by (metis length_map)
    also have "\<dots> = length table_names - length (filter (\<lambda>n. \<not> ?ok n) table_names)"
      by (rule length_filter_compl)
    finally show "map ts_name tables_data = filter ?ok table_names
              \<and> length tables_data =
                  length table_names
                  - length (filter (\<lambda>n. isl (get_columns conn n) \<or> isl (select_count conn n))
                              table_names)"
      using eq by simp
  qed
  from names data sub fields exact show ?thesis by blast
qed



lemma process_table_catchable:
  assumes "catchable (get_columns conn n)" "catchable (select_count conn n)"
    and "catchable (select_rows conn n)"
  shows "catchable (fst (process_table conn rv n))"
  using assms unfolding process_table_def Let_def catchable_def
  by (auto split: sum.splits option.splits)

lemma read_tables_continues:
  "\<forall>n\<in>set names. catchable (get_columns conn n) \<and> catchable (select_count conn n)
                    \<and> catchable (select_rows conn n) \<Longrightarrow>
     \<exists>out. read_tables conn rv names = Inr out"
proof (induction names arbitrary: rv)
  case Nil
  then show ?case by simp
next
  case (Cons n names)
  obtain r rv' where pt: "process_table conn rv n = (r, rv')" by (cases "process_table conn rv n")
  from Cons.prems have "catchable (fst (process_table conn rv n))"
    by (intro process_table_catchable) simp_all
  with pt have cr: "catchable r" by simp
  from Cons.prems have "\<forall>n\<in>set names. catchable (get_columns conn n)
      \<and> catchable (select_count conn n) \<and> catchable (select_rows conn n)" by simp
  from Cons.IH [OF this] obtain out where rest: "read_tables conn rv' names = Inr out" by blast
  show ?case
  proof (cases r)
    case (Inl e)
    with cr have "is_Exception (exc_class_of e)" by (simp add: catchable_def)
    with pt Inl rest show ?thesis by simp
  next
    case (Inr t)
    with pt rest show ?thesis by simp
  qed
qed

text \<open>
  Claim C2, as amended. When the introspection returns, the tables of the result are, in
  enumeration order, among the enumerated tables whose column fetch and row count query
  both succeeded, each with its name, the number of its fetched columns, its exact row
  count and a column list that is empty or describes the fetched columns: a table whose
  column fetch or row count query fails is absent. When no snippet query fails, the result
  holds exactly those tables, so their number is the number of enumerated tables minus the
  number of those whose column fetch or row count query failed. And the introspection does
  return, going on to the next table after a failing one, whenever the tables are
  enumerated and every failing query raises an exception of class \<^verbatim>\<open>Exception\<close>.
\<close>

theorem relational_tables_isolated:
  "(relational_read_data path (Inr (Inr conn)) = Inr data \<longrightarrow>
      (\<exists>table_names tables_data.
           get_table_names conn = Inr table_names \<and> ds_tables data = Some tables_data
         \<and> subseq (map ts_name tables_data)
             (filter (\<lambda>n. \<not> isl (get_columns conn n) \<and> \<not> isl (select_count conn n)) table_names)
         \<and> (\<forall>t\<in>set tables_data.
               \<exists>columns c. get_columns conn (ts_name t) = Inr columns
                 \<and> select_count conn (ts_name t) = Inr c
                 \<and> ts_col_count t = Some (length columns)
                 \<and> ts_row_count t = Some (case c of Some k \<Rightarrow> k | None \<Rightarrow> 0)
                 \<and> (\<exists>details. ts_columns t = Some details
                     \<and> (details = []
                          \<or> map column_name details = map cm_name columns
                             \<and> map data_type details = map cm_type columns)))
         \<and> ((\<forall>n\<in>set table_names. \<not> isl (select_rows conn n)) \<longrightarrow>
                map ts_name tables_data =
                  filter (\<lambda>n. \<not> isl (get_columns conn n) \<and> \<not> isl (select_count conn n)) table_names
              \<and> length tables_data =
                  length table_names
                  - length (filter (\<lambda>n. isl (get_columns conn n) \<or> isl (select_count conn n))
                              table_names))))
   \<and> (get_table_names conn = Inr table_names
       \<and> (\<forall>n\<in>set table_names. catchable (get_columns conn n) \<and> catchable (select_count conn n)
                                \<and> catchable (select_rows conn n)) \<longrightarrow>
        (\<exists>tables_data.
           relational_read_data path (Inr (Inr conn))
             = Inr \<lparr>ds_name = path, ds_columns = None, ds_tables = Some tables_data\<rparr>
         \<and> subseq (map ts_name tables_data)
             (filter (\<lambda>n. \<not> isl (get_columns conn n) \<and> \<not> isl (select_count conn n)) table_names)
         \<and> ((\<forall>n\<in>set table_names. \<not> isl (select_rows conn n)) \<longrightarrow>
                map ts_name tables_data =
                  filter (\<lambda>n. \<not> isl (get_columns conn n) \<and> \<not> isl (select_count conn n)) table_names
              \<and> length tables_data =
                  length table_names
                  - length (filter (\<lambda>n. isl (get_columns conn n) \<or> isl (select_count conn n))
                              table_names))))"
proof -
  have a: "relational_read_data path (Inr (Inr conn)) = Inr data \<longrightarrow>
      (\<exists>table_names tables_data.
           get_table_names conn = Inr table_names \<and> ds_tables data = Some tables_data
         \<and> subseq (map ts_name tables_data)
             (filter (\<lambda>n. \<not> isl (get_columns conn n) \<and> \<not> isl (select_count conn n)) table_names)
         \<and> (\<forall>t\<in>set tables_data.
               \<exists>columns c. get_columns conn (ts_name t) = Inr columns
                 \<and> select_count conn (ts_name t) = Inr c
                 \<and> ts_col_count t = Some (length columns)
                 \<and> ts_row_count t = Some (case c of Some k \<Rightarrow> k | None \<Rightarrow> 0)
                 \<and> (\<exists>details. ts_columns t = Some details
                     \<and> (details = []
                          \<or> map column_name details = map cm_name columns
                             \<and> map data_type details = map cm_type columns)))
         \<and> ((\<forall>n\<in>set table_names. \<not> isl (select_rows conn n)) \<longrightarrow>
                map ts_name tables_data =
                  filter (\<lambda>n. \<not> isl (get_columns conn n) \<and> \<not> isl (select_count conn n)) table_names
              \<and> length tables_data =
                  length table_names
                  - length (filter (\<lambda>n. isl (get_columns conn n) \<or> isl (select_count conn n))
                              table_names)))"
    using relational_tables_listed [of path conn data] by blast
  have b: "get_table_names conn = Inr table_names
       \<and> (\<forall>n\<in>set table_names. catchable (get_columns conn n) \<and> catchable (select_count conn n)
                                \<and> catchable (select_rows conn n)) \<longrightarrow>
        (\<exists>tables_data.
           relational_read_data path (Inr (Inr conn))
             = Inr \<lparr>ds_name = path, ds_columns = None, ds_tables = Some tables_data\<rparr>
         \<and> subseq (map ts_name tables_data)
             (filter (\<lambda>n. \<not> isl (get_columns conn n) \<and> \<not> isl (select_count conn n)) table_names)
         \<and> ((\<forall>n\<in>set table_names. \<not> isl (select_rows conn n)) \<longrightarrow>
                map ts_name tables_data =
                  filter (\<lambda>n. \<not> isl (get_columns conn n) \<and> \<not> isl (select_count conn n)) table_names
              \<and> length tables_data =
                  length table_names
                  - length (filter (\<lambda>n. isl (get_columns conn n) \<or> isl (select_count conn n))
                              table_names)))"
  proof
    assume h: "get_table_names conn = Inr table_names
       \<and> (\<forall>n\<in>set table_names. catchable (get_columns conn n) \<and> catchable (select_count conn n)
                                \<and> catchable (select_rows conn n))"
    then have names: "get_table_names conn = Inr table_names" by simp
    from h read_tables_continues [of table_names conn None] obtain tables_data where
      rt: "read_tables conn None table_names = Inr tables_data" by blast
    have rd: "relational_read_data path (Inr (Inr conn))
             = Inr \<lparr>ds_name = path, ds_columns = None, ds_tables = Some tables_data\<rparr>"
      by (simp add: relational_read_data_def names rt)
    from relational_tables_listed [OF rd] names
    have "subseq (map ts_name tables_data)
             (filter (\<lambda>n. \<not> isl (get_columns conn n) \<and> \<not> isl (select_count conn n)) table_names)
         \<and> ((\<forall>n\<in>set table_names. \<not> isl (select_rows conn n)) \<longrightarrow>
                map ts_name tables_data =
                  filter (\<lambda>n. \<not> isl (get_columns conn n) \<and> \<not> isl (select_count conn n)) table_names
              \<and> length tables_data =
                  length table_names
                  - length (filter (\<lambda>n. isl (get_columns conn n) \<or> isl (select_count conn n))
                              table_names))"
      by auto
    with rd show "(\<exists>tables_data.
           relational_read_data path (Inr (Inr conn))
             = Inr \<lparr>ds_name = path, ds_columns = None, ds_tables = Some tables_data\<rparr>
         \<and> subseq (map ts_name tables_data)
             (filter (\<lambda>n. \<not> isl (get_columns conn n) \<and> \<not> isl (select_count conn n)) table_names)
         \<and> ((\<forall>n\<in>set table_names. \<not> isl (select_rows conn n)) \<longrightarrow>
                map ts_name tables_data =
                  filter (\<lambda>n. \<not> isl (get_columns conn n) \<and> \<not> isl (select_count conn n)) table_names
              \<and> length tables_data =
                  length table_names
                  - length (filter (\<lambda>n. isl (get_columns conn n) \<or> isl (select_count conn n))
                              table_names)))" by blast
  qed
  from a b show ?thesis by (intro conjI)
qed

theorem relational_tables_isolated_witness:
  "relational_read_data ''sqlite:///x.db''
      (Inr (Inr \<lparr>get_table_names = Inr [''a'', ''b'', ''c''],
          get_columns = (\<lambda>n. if n = ''a'' then Inl (Exc SQLAlchemyError ''no such table'')
                             else Inr [\<lparr>cm_name = ''id'', cm_type = ''INTEGER''\<rparr>]),
          select_count = (\<lambda>n. Inr (Some 1)),
          select_rows = (\<lambda>n. Inr [[Some ''7'']])\<rparr>))
     = Inr \<lparr>ds_name = ''sqlite:///x.db'', ds_columns = None,
            ds_tables = Some
              [\<lparr>ts_name = ''b'', ts_raw_data_snippet = Some [CHR ''i'', CHR ''d'', CHR 0x0A, CHR ''7''],
                ts_row_count = Some 1, ts_col_count = Some 1,
                ts_columns = Some [\<lparr>column_name = ''id'', data_type = ''INTEGER'',
                                    data_samples = [''7'']\<rparr>],
                ts_irregular_judgment = None\<rparr>,
               \<lparr>ts_name = ''c'', ts_raw_data_snippet = Some [CHR ''i'', CHR ''d'', CHR 0x0A, CHR ''7''],
                ts_row_count = Some 1, ts_col_count = Some 1,
                ts_columns = Some [\<lparr>column_name = ''id'', data_type = ''INTEGER'',
                                    data_samples = [''7'']\<rparr>],
                ts_irregular_judgment = None\<rparr>]\<rparr>
   \<and> (\<exists>tables_data.
        relational_read_data ''sqlite:///x.db''
          (Inr (Inr \<lparr>get_table_names = Inr [''a'', ''b'', ''c''],
          get_columns = (\<lambda>n. if n = ''a'' then Inl (Exc SQLAlchemyError ''no such table'')
                             else Inr [\<lparr>cm_name = ''id'', cm_type = ''INTEGER''\<rparr>]),
          select_count = (\<lambda>n. Inr (Some 1)),
          select_rows = (\<lambda>n. Inr [[Some ''7'']])\<rparr>))
          = Inr \<lparr>ds_name = ''sqlite:///x.db'', ds_columns = None, ds_tables = Some tables_data\<rparr>
        \<and> map ts_name tables_data = [''b'', ''c''])"
proof -
  let ?conn = "\<lparr>get_table_names = Inr [''a'', ''b'', ''c''],
          get_columns = (\<lambda>n. if n = ''a'' then Inl (Exc SQLAlchemyError ''no such table'')
                             else Inr [\<lparr>cm_name = ''id'', cm_type = ''INTEGER''\<rparr>]),
          select_count = (\<lambda>n. Inr (Some 1)),
          select_rows = (\<lambda>n. Inr [[Some ''7'']])\<rparr>"
  let ?data = "\<lparr>ds_name = ''sqlite:///x.db'', ds_columns = None,
            ds_tables = Some
              [\<lparr>ts_name = ''b'', ts_raw_data_snippet = Some [CHR ''i'', CHR ''d'', CHR 0x0A, CHR ''7''],
                ts_row_count = Some 1, ts_col_count = Some 1,
                ts_columns = Some [\<lparr>column_name = ''id'', data_type = ''INTEGER'',
                                    data_samples = [''7'']\<rparr>],
                ts_irregular_judgment = None\<rparr>,
               \<lparr>ts_name = ''c'', ts_raw_data_snippet = Some [CHR ''i'', CHR ''d'', CHR 0x0A, CHR ''7''],
                ts_row_count = Some 1, ts_col_count = Some 1,
                ts_columns = Some [\<lparr>column_name = ''id'', data_type = ''INTEGER'',
                                    data_samples = [''7'']\<rparr>],
                ts_irregular_judgment = None\<rparr>]\<rparr>"
  note isolated = relational_tables_isolated
         [where path = "''sqlite:///x.db''" and conn = ?conn and data = ?data
            and table_names = "[''a'', ''b'', ''c'']"]
  have a: "relational_read_data ''sqlite:///x.db'' (Inr (Inr ?conn)) = Inr ?data"
    by code_simp
  have h: "get_table_names ?conn = Inr [''a'', ''b'', ''c'']
       \<and> (\<forall>n\<in>set [''a'', ''b'', ''c''].
             catchable (get_columns ?conn n) \<and> catchable (select_count ?conn n)
             \<and> catchable (select_rows ?conn n))"
    by (simp add: catchable_def)
  from isolated h obtain tables_data where
    rd: "relational_read_data ''sqlite:///x.db'' (Inr (Inr ?conn))
          = Inr \<lparr>ds_name = ''sqlite:///x.db'', ds_columns = None, ds_tables = Some tables_data\<rparr>"
    by blast
  from rd a have "tables_data = the (ds_tables ?data)" by simp
  then have nm: "map ts_name tables_data = [''b'', ''c'']" by simp
  have ex: "\<exists>tables_data.
        relational_read_data ''sqlite:///x.db'' (Inr (Inr ?conn))
          = Inr \<lparr>ds_name = ''sqlite:///x.db'', ds_columns = None, ds_tables = Some tables_data\<rparr>
        \<and> map ts_name tables_data = [''b'', ''c'']"
    by (rule exI [of _ tables_data]) (rule conjI [OF rd nm])
  from a ex show ?thesis by (rule conjI)
qed

text \<open>
  Claim C2 as stated fails: the column fetch of the only table succeeds and its row count
  query raises, and the table is absent from the result.
\<close>

theorem relational_count_failure_counterexample:
  "get_columns \<lparr>get_table_names = Inr [''t''],
          get_columns = (\<lambda>n. Inr [\<lparr>cm_name = ''id'', cm_type = ''INTEGER''\<rparr>]),
          select_count = (\<lambda>n. Inl (Exc SQLAlchemyError ''permission denied'')),
          select_rows = (\<lambda>n. Inr [[Some ''7'']])\<rparr> ''t''
     = Inr [\<lparr>cm_name = ''id'', cm_type = ''INTEGER''\<rparr>]
   \<and> relational_read_data ''sqlite:///x.db''
      (Inr (Inr \<lparr>get_table_names = Inr [''t''],
          get_columns = (\<lambda>n. Inr [\<lparr>cm_name = ''id'', cm_type = ''INTEGER''\<rparr>]),
          select_count = (\<lambda>n. Inl (Exc SQLAlchemyError ''permission denied'')),
          select_rows = (\<lambda>n. Inr [[Some ''7'']])\<rparr>))
     = Inr \<lparr>ds_name = ''sqlite:///x.db'', ds_columns = None, ds_tables = Some []\<rparr>"
  by code_simp

section \<open>Properties of the profile generation lifecycle\<close>

text \<open>
  Claim C1, as amended. When the connection fails at setup with an exception of class
  \<^verbatim>\<open>Exception\<close>, reading the data raises a ConnectionError that carries its message, and
  profile generation catches it and returns the empty profile. The same holds for such an
  exception raised by any stage of the lifecycle, and profile generation raises no
  exception of class \<^verbatim>\<open>Exception\<close> to its caller.
\<close>

theorem generate_profile_swallows:
  "is_Exception (exc_class_of e) \<Longrightarrow>
     relational_read_data path (Inr (Inl e))
       = Inl (Exc ConnectionError (''Failed to connect to database: '' @ exc_message e))
   \<and> generate_profile (relational_read_data path (Inr (Inl e))) build_db llm_db wrap_db = Inr None
   \<and> (read_data = Inl e
        \<or> (\<exists>d. read_data = Inr d
              \<and> (build_content d = Inl e
                  \<or> (\<exists>c. build_content d = Inr c
                        \<and> (llm c = Inl e
                            \<or> (\<exists>res. llm c = Inr res \<and> wrap_response d res = Inl e)))))
      \<longrightarrow> generate_profile read_data build_content llm wrap_response = Inr None)
   \<and> (\<forall>e'. generate_profile read_data build_content llm wrap_response = Inl e'
          \<longrightarrow> \<not> is_Exception (exc_class_of e'))"
proof -
  assume exc: "is_Exception (exc_class_of e)"
  have a: "relational_read_data path (Inr (Inl e))
       = Inl (Exc ConnectionError (''Failed to connect to database: '' @ exc_message e))"
    using exc by (simp add: relational_read_data_def)
  have b: "generate_profile (relational_read_data path (Inr (Inl e))) build_db llm_db wrap_db = Inr None"
    unfolding a by (simp add: generate_profile_def profile_lifecycle_def)
  have c: "read_data = Inl e
        \<or> (\<exists>d. read_data = Inr d
              \<and> (build_content d = Inl e
                  \<or> (\<exists>c. build_content d = Inr c
                        \<and> (llm c = Inl e
                            \<or> (\<exists>res. llm c = Inr res \<and> wrap_response d res = Inl e)))))
      \<longrightarrow> generate_profile read_data build_content llm wrap_response = Inr None"
  proof
    assume "read_data = Inl e
        \<or> (\<exists>d. read_data = Inr d
              \<and> (build_content d = Inl e
                  \<or> (\<exists>c. build_content d = Inr c
                        \<and> (llm c = Inl e
                            \<or> (\<exists>res. llm c = Inr res \<and> wrap_response d res = Inl e)))))"
    then have "profile_lifecycle read_data build_content llm wrap_response = Inl e"
      unfolding profile_lifecycle_def by auto
    then show "generate_profile read_data build_content llm wrap_response = Inr None"
      using exc by (simp add: generate_profile_def)
  qed
  have d: "\<forall>e'. generate_profile read_data build_content llm wrap_response = Inl e'
          \<longrightarrow> \<not> is_Exception (exc_class_of e')"
    unfolding generate_profile_def by (auto split: sum.splits if_splits)
  from a b c d show ?thesis by blast
qed

theorem generate_profile_swallows_witness:
  "is_Exception (exc_class_of (Exc OSError ''connection refused''))
   \<and> generate_profile (relational_read_data ''postgresql://u:p@h/db''
                         (Inr (Inl (Exc OSError ''connection refused''))))
       (\<lambda>d. Inr ''prompt'') (\<lambda>c. Inr (JObj [(''description'', JStr ''d'')])) wrap_data_response
     = Inr None
   \<and> generate_profile (Inr (0 :: nat)) (\<lambda>d. Inr ''prompt'')
       (\<lambda>c. Inl (Exc JSONDecodeError ''Expecting value''))
       (\<lambda>d res. Inr (1 :: nat))
     = Inr None"
proof -
  have h: "is_Exception (exc_class_of (Exc OSError ''connection refused''))" by simp
  have h2: "is_Exception (exc_class_of (Exc JSONDecodeError ''Expecting value''))" by simp
  from generate_profile_swallows [OF h, where path = "''postgresql://u:p@h/db''"
         and build_db = "\<lambda>d. Inr ''prompt''"
         and llm_db = "\<lambda>c. Inr (JObj [(''description'', JStr ''d'')])"
         and wrap_db = wrap_data_response
         and read_data = "Inl (Exc OSError ''connection refused'') :: py_exc + nat"
         and build_content = "\<lambda>d. Inr ''prompt''"
         and llm = "\<lambda>c. Inr JNull" and wrap_response = "\<lambda>d res. Inr (1 :: nat)"]
  have first: "generate_profile (relational_read_data ''postgresql://u:p@h/db''
                         (Inr (Inl (Exc OSError ''connection refused''))))
       (\<lambda>d. Inr ''prompt'') (\<lambda>c. Inr (JObj [(''description'', JStr ''d'')])) wrap_data_response
     = Inr None" by blast
  from generate_profile_swallows [OF h2, where path = "''postgresql://u:p@h/db''"
         and build_db = "\<lambda>d. Inr ''prompt''"
         and llm_db = "\<lambda>c. Inr (JObj [(''description'', JStr ''d'')])"
         and wrap_db = wrap_data_response
         and read_data = "Inr (0 :: nat)"
         and build_content = "\<lambda>d. Inr ''prompt''"
         and llm = "\<lambda>c. Inl (Exc JSONDecodeError ''Expecting value'')"
         and wrap_response = "\<lambda>d res. Inr (1 :: nat)"]
  have second: "generate_profile (Inr (0 :: nat)) (\<lambda>d. Inr ''prompt'')
       (\<lambda>c. Inl (Exc JSONDecodeError ''Expecting value''))
       (\<lambda>d res. Inr (1 :: nat))
     = Inr None" by simp
  from h first second
  show ?thesis by simp
qed

text \<open>
  Claim C1 as stated fails: with a refused connection the read raises the ConnectionError,
  and profile generation returns the empty profile instead of raising it.
\<close>

theorem connection_error_swallowed_counterexample:
  "relational_read_data ''postgresql://u:p@h/db'' (Inr (Inl (Exc OSError ''connection refused'')))
     = Inl (Exc ConnectionError ''Failed to connect to database: connection refused'')
   \<and> generate_profile (relational_read_data ''postgresql://u:p@h/db''
                         (Inr (Inl (Exc OSError ''connection refused''))))
       (\<lambda>d. Inr ''prompt'') (\<lambda>c. Inr (JObj [(''description'', JStr ''d'')])) wrap_data_response
     = Inr None"
  by code_simp

section \<open>Properties of the truncation\<close>

lemma floor_085: "\<lfloor>(0.85::real) * of_int B\<rfloor> = (B * 17) div 20"
proof -
  have "(0.85::real) * of_int B = of_int (B * 17) / of_int 20" by simp
  then show ?thesis using floor_divide_of_int_eq [of "B * 17" 20, where ?'a = real]
    by (simp add: mult.commute)
qed

lemma no_text_left:
  "sum_list (map (\<lambda>b. length (text_of b)) blocks) = 0 \<Longrightarrow> TextBlock [] \<notin> set blocks \<Longrightarrow>
     filter is_text blocks = []"
proof (induction blocks)
  case Nil
  then show ?case by simp
next
  case (Cons a blocks)
  then show ?case by (cases a) auto
qed

lemma truncate_blocks_fits:
  "int (sum_list (map (\<lambda>b. length (text_of b)) blocks)) \<le> B \<Longrightarrow> TextBlock [] \<notin> set blocks \<Longrightarrow>
     truncate_blocks B blocks = (filter is_text blocks, False)"
proof (induction blocks arbitrary: B)
  case Nil
  then show ?case by simp
next
  case (Cons a blocks)
  show ?case
  proof (cases a)
    case (OtherBlock ty)
    with Cons show ?thesis by simp
  next
    case (TextBlock u)
    from Cons.prems TextBlock have le: "int (length u) \<le> B"
      and rest: "int (sum_list (map (\<lambda>b. length (text_of b)) blocks)) \<le> B - int (length u)"
      and ne: "TextBlock [] \<notin> set blocks" by auto
    show ?thesis
    proof (cases "B - int (length u) \<le> 0")
      case True
      with rest have "sum_list (map (\<lambda>b. length (text_of b)) blocks) = 0" by linarith
      from no_text_left [OF this ne] True le TextBlock show ?thesis by (simp add: Let_def)
    next
      case False
      with Cons.IH [OF rest ne] le TextBlock show ?thesis by (simp add: Let_def)
    qed
  qed
qed

lemma truncate_blocks_first:
  "B < int (length t) \<Longrightarrow>
     truncate_blocks B (TextBlock t # post)
       = ([TextBlock (slice_to t (threshold_of B) @ append_hint)], True)"
  by (simp add: Let_def)

lemma truncate_blocks_cut:
  "int (sum_list (map (\<lambda>b. length (text_of b)) pre)) < B \<Longrightarrow>
   B - int (sum_list (map (\<lambda>b. length (text_of b)) pre)) < int (length t) \<Longrightarrow>
     truncate_blocks B (pre @ TextBlock t # post)
       = (filter is_text pre
            @ [TextBlock (slice_to t (threshold_of
                            (B - int (sum_list (map (\<lambda>b. length (text_of b)) pre))))
                          @ append_hint)], True)"
proof (induction pre arbitrary: B)
  case Nil
  then have "B < int (length t)" by simp
  from truncate_blocks_first [OF this] show ?case by simp
next
  case (Cons a pre)
  show ?case
  proof (cases a)
    case (OtherBlock ty)
    with Cons show ?thesis by simp
  next
    case (TextBlock u)
    let ?s = "int (sum_list (map (\<lambda>b. length (text_of b)) pre))"
    from Cons.prems TextBlock have a: "?s < B - int (length u)"
      and b: "(B - int (length u)) - ?s < int (length t)" by auto
    from a have pos: "\<not> B - int (length u) \<le> 0" and le: "\<not> int (length u) > B" by linarith+
    have eq: "B - int (sum_list (map (\<lambda>b. length (text_of b)) (a # pre))) = (B - int (length u)) - ?s"
      using TextBlock by simp
    from Cons.IH [OF a b] pos le TextBlock show ?thesis
      unfolding eq by (simp add: Let_def)
  qed
qed

lemma truncate_blocks_reached:
  assumes "list_all is_text pre"
    and "pre = [] \<or> int (sum_list (map (\<lambda>b. length (text_of b)) pre)) < B"
    and "B - int (sum_list (map (\<lambda>b. length (text_of b)) pre)) < int (length t)"
  shows "truncate_blocks B (pre @ TextBlock t # post)
       = (pre @ [TextBlock (slice_to t (threshold_of
                              (B - int (sum_list (map (\<lambda>b. length (text_of b)) pre))))
                            @ append_hint)], True)"
proof (cases "pre = []")
  case True
  with assms(3) have "B < int (length t)" by simp
  from truncate_blocks_first [OF this] True show ?thesis by simp
next
  case False
  with assms(2) have lt: "int (sum_list (map (\<lambda>b. length (text_of b)) pre)) < B" by simp
  from assms(1) have "filter is_text pre = pre" by (simp add: list_all_iff)
  with truncate_blocks_cut [OF lt assms(3)] show ?thesis by simp
qed

lemma slice_to_take:
  "0 \<le> R \<Longrightarrow> slice_to t (threshold_of R) = take (nat \<lfloor>0.85 * real_of_int R\<rfloor>) t"
  unfolding floor_085 by (simp add: slice_to_def threshold_of_def)

lemma cut_length:
  "0 \<le> R \<Longrightarrow> R < int (length t) \<Longrightarrow>
     length (take (nat ((R * 17) div 20)) t @ append_hint)
       = nat ((R * 17) div 20) + length append_hint"
proof -
  assume "0 \<le> R" "R < int (length t)"
  then have "nat ((R * 17) div 20) \<le> length t" by linarith
  then show ?thesis by simp
qed

text \<open>
  Claim C3, as amended. For a response that is a list of text segments and a budget \<open>B\<close>:
  when the segments are non-empty and their lengths sum to at most \<open>B\<close>, and auto-save is
  off, the output is the input and nothing is written. When the segments \<open>pre\<close> leave a
  positive remaining budget \<open>R = B - sum pre\<close> (or there are none) and the next segment is
  longer than \<open>R\<close>, then \<open>pre\<close> passes through unmodified, that segment is replaced by its
  cut at \<^verbatim>\<open>int(R * 0.85)\<close> with the truncation marker appended, which for \<open>R \<ge> 0\<close> is its
  first \<open>floor (0.85 * R)\<close> characters, every later segment is dropped, the wrapped dump of
  the original content is written to the side file and the block that points to the file
  is appended; when the write raises, the hook raises the same exception. The cut is 85
  percent of the remaining budget, which is \<open>B\<close> only when \<open>pre\<close> is empty. A response that
  is one non-empty string longer than \<open>B\<close> is cut at
  \<^verbatim>\<open>int(budget / text_len * len(text) * 0.8)\<close>, computed in floating point, with the marker
  and the pointing block; one that is no longer than \<open>B\<close> is returned as it is when
  auto-save is off.
\<close>

theorem truncate_and_save_response_budget:
  "(list_all is_text blocks
    \<and> int (sum_list (map (\<lambda>b. length (text_of b)) blocks)) \<le> B \<and> TextBlock [] \<notin> set blocks \<longrightarrow>
      truncate_and_save_response B False sandbox_write dump_wrapped file_path (ContentList blocks)
        = Inr (Some \<lparr>new_content = ContentList blocks, saved_file = None\<rparr>))
   \<and> (list_all is_text pre
       \<and> (pre = [] \<or> int (sum_list (map (\<lambda>b. length (text_of b)) pre)) < B)
       \<and> B - int (sum_list (map (\<lambda>b. length (text_of b)) pre)) < int (length t) \<longrightarrow>
        (sandbox_write file_path (dump_wrapped (ContentList (pre @ TextBlock t # post))) = None \<longrightarrow>
           truncate_and_save_response B auto_save sandbox_write dump_wrapped file_path
               (ContentList (pre @ TextBlock t # post))
             = Inr (Some \<lparr>new_content = ContentList
                            (pre
                             @ [TextBlock
                                  (slice_to t (threshold_of
                                     (B - int (sum_list (map (\<lambda>b. length (text_of b)) pre))))
                                   @ append_hint),
                                save_message file_path True]),
                          saved_file = Some (file_path,
                            dump_wrapped (ContentList (pre @ TextBlock t # post)))\<rparr>))
      \<and> (\<forall>e. sandbox_write file_path (dump_wrapped (ContentList (pre @ TextBlock t # post)))
                = Some e \<longrightarrow>
             truncate_and_save_response B auto_save sandbox_write dump_wrapped file_path
               (ContentList (pre @ TextBlock t # post)) = Inl e)
      \<and> (0 \<le> B - int (sum_list (map (\<lambda>b. length (text_of b)) pre)) \<longrightarrow>
             slice_to t (threshold_of (B - int (sum_list (map (\<lambda>b. length (text_of b)) pre))))
               = take (nat \<lfloor>0.85 * real_of_int
                                (B - int (sum_list (map (\<lambda>b. length (text_of b)) pre)))\<rfloor>) t
           \<and> length (slice_to t (threshold_of
                        (B - int (sum_list (map (\<lambda>b. length (text_of b)) pre))))
                      @ append_hint)
               = nat \<lfloor>0.85 * real_of_int
                          (B - int (sum_list (map (\<lambda>b. length (text_of b)) pre)))\<rfloor>
                 + length append_hint))
   \<and> (B < int (length s) \<and> s \<noteq> []
       \<and> sandbox_write file_path (dump_wrapped (ContentStr s)) = None \<longrightarrow>
        truncate_and_save_response B auto_save sandbox_write dump_wrapped file_path (ContentStr s)
          = Inr (Some \<lparr>new_content = ContentList
                         [TextBlock (slice_to s (str_threshold B (length s)) @ append_hint),
                          save_message file_path True],
                       saved_file = Some (file_path, dump_wrapped (ContentStr s))\<rparr>))
   \<and> (int (length s) \<le> B \<longrightarrow>
        truncate_and_save_response B False sandbox_write dump_wrapped file_path (ContentStr s)
          = Inr (Some \<lparr>new_content = ContentStr s, saved_file = None\<rparr>))"
proof -
  have fits: "list_all is_text blocks
    \<and> int (sum_list (map (\<lambda>b. length (text_of b)) blocks)) \<le> B \<and> TextBlock [] \<notin> set blocks \<longrightarrow>
      truncate_and_save_response B False sandbox_write dump_wrapped file_path (ContentList blocks)
        = Inr (Some \<lparr>new_content = ContentList blocks, saved_file = None\<rparr>)"
  proof
    assume h: "list_all is_text blocks
      \<and> int (sum_list (map (\<lambda>b. length (text_of b)) blocks)) \<le> B \<and> TextBlock [] \<notin> set blocks"
    then have "truncate_blocks B blocks = (filter is_text blocks, False)"
      using truncate_blocks_fits by blast
    moreover from h have "filter is_text blocks = blocks"
      by (simp add: list_all_iff)
    ultimately have tb: "truncate_blocks B blocks = (blocks, False)" by simp
    show "truncate_and_save_response B False sandbox_write dump_wrapped file_path
            (ContentList blocks)
        = Inr (Some \<lparr>new_content = ContentList blocks, saved_file = None\<rparr>)"
      by (simp add: truncate_and_save_response_def tb)
  qed
  let ?R = "B - int (sum_list (map (\<lambda>b. length (text_of b)) pre))"
  let ?c = "ContentList (pre @ TextBlock t # post)"
  have cut: "list_all is_text pre
       \<and> (pre = [] \<or> int (sum_list (map (\<lambda>b. length (text_of b)) pre)) < B)
       \<and> ?R < int (length t) \<longrightarrow>
        (sandbox_write file_path (dump_wrapped ?c) = None \<longrightarrow>
           truncate_and_save_response B auto_save sandbox_write dump_wrapped file_path ?c
             = Inr (Some \<lparr>new_content = ContentList
                            (pre @ [TextBlock (slice_to t (threshold_of ?R) @ append_hint),
                                    save_message file_path True]),
                          saved_file = Some (file_path, dump_wrapped ?c)\<rparr>))
      \<and> (\<forall>e. sandbox_write file_path (dump_wrapped ?c) = Some e \<longrightarrow>
             truncate_and_save_response B auto_save sandbox_write dump_wrapped file_path ?c = Inl e)
      \<and> (0 \<le> ?R \<longrightarrow>
             slice_to t (threshold_of ?R) = take (nat \<lfloor>0.85 * real_of_int ?R\<rfloor>) t
           \<and> length (slice_to t (threshold_of ?R) @ append_hint)
               = nat \<lfloor>0.85 * real_of_int ?R\<rfloor> + length append_hint)"
  proof
    assume h: "list_all is_text pre
       \<and> (pre = [] \<or> int (sum_list (map (\<lambda>b. length (text_of b)) pre)) < B)
       \<and> ?R < int (length t)"
    then have tb: "truncate_blocks B (pre @ TextBlock t # post)
       = (pre @ [TextBlock (slice_to t (threshold_of ?R) @ append_hint)], True)"
      using truncate_blocks_reached by blast
    have ok: "sandbox_write file_path (dump_wrapped ?c) = None \<longrightarrow>
           truncate_and_save_response B auto_save sandbox_write dump_wrapped file_path ?c
             = Inr (Some \<lparr>new_content = ContentList
                            (pre @ [TextBlock (slice_to t (threshold_of ?R) @ append_hint),
                                    save_message file_path True]),
                          saved_file = Some (file_path, dump_wrapped ?c)\<rparr>)"
      by (simp add: truncate_and_save_response_def save_tmp_file_def tb)
    have ko: "\<forall>e. sandbox_write file_path (dump_wrapped ?c) = Some e \<longrightarrow>
             truncate_and_save_response B auto_save sandbox_write dump_wrapped file_path ?c = Inl e"
      by (simp add: truncate_and_save_response_def save_tmp_file_def tb)
    have len: "0 \<le> ?R \<longrightarrow>
             slice_to t (threshold_of ?R) = take (nat \<lfloor>0.85 * real_of_int ?R\<rfloor>) t
           \<and> length (slice_to t (threshold_of ?R) @ append_hint)
               = nat \<lfloor>0.85 * real_of_int ?R\<rfloor> + length append_hint"
    proof
      assume nn: "0 \<le> ?R"
      from h have lt: "?R < int (length t)" by simp
      have a: "slice_to t (threshold_of ?R) = take (nat \<lfloor>0.85 * real_of_int ?R\<rfloor>) t"
        by (rule slice_to_take [OF nn])
      have "length (take (nat ((?R * 17) div 20)) t @ append_hint)
                 = nat ((?R * 17) div 20) + length append_hint"
        by (rule cut_length [OF nn lt])
      then have "length (take (nat \<lfloor>0.85 * real_of_int ?R\<rfloor>) t @ append_hint)
                 = nat \<lfloor>0.85 * real_of_int ?R\<rfloor> + length append_hint"
        unfolding floor_085 .
      with a show "slice_to t (threshold_of ?R) = take (nat \<lfloor>0.85 * real_of_int ?R\<rfloor>) t
           \<and> length (slice_to t (threshold_of ?R) @ append_hint)
               = nat \<lfloor>0.85 * real_of_int ?R\<rfloor> + length append_hint"
        by simp
    qed
    from ok ko len show "(sandbox_write file_path (dump_wrapped ?c) = None \<longrightarrow>
           truncate_and_save_response B auto_save sandbox_write dump_wrapped file_path ?c
             = Inr (Some \<lparr>new_content = ContentList
                            (pre @ [TextBlock (slice_to t (threshold_of ?R) @ append_hint),
                                    save_message file_path True]),
                          saved_file = Some (file_path, dump_wrapped ?c)\<rparr>))
      \<and> (\<forall>e. sandbox_write file_path (dump_wrapped ?c) = Some e \<longrightarrow>
             truncate_and_save_response B auto_save sandbox_write dump_wrapped file_path ?c = Inl e)
      \<and> (0 \<le> ?R \<longrightarrow>
             slice_to t (threshold_of ?R) = take (nat \<lfloor>0.85 * real_of_int ?R\<rfloor>) t
           \<and> length (slice_to t (threshold_of ?R) @ append_hint)
               = nat \<lfloor>0.85 * real_of_int ?R\<rfloor> + length append_hint)"
      by blast
  qed
  have str_cut: "B < int (length s) \<and> s \<noteq> []
       \<and> sandbox_write file_path (dump_wrapped (ContentStr s)) = None \<longrightarrow>
        truncate_and_save_response B auto_save sandbox_write dump_wrapped file_path (ContentStr s)
          = Inr (Some \<lparr>new_content = ContentList
                         [TextBlock (slice_to s (str_threshold B (length s)) @ append_hint),
                          save_message file_path True],
                       saved_file = Some (file_path, dump_wrapped (ContentStr s))\<rparr>)"
    by (simp add: truncate_and_save_response_def save_tmp_file_def Let_def)
  have str_fits: "int (length s) \<le> B \<longrightarrow>
        truncate_and_save_response B False sandbox_write dump_wrapped file_path (ContentStr s)
          = Inr (Some \<lparr>new_content = ContentStr s, saved_file = None\<rparr>)"
    by (simp add: truncate_and_save_response_def Let_def)
  from fits cut str_cut str_fits show ?thesis by (intro conjI)
qed

theorem truncate_and_save_response_budget_witness:
  "truncate_and_save_response 20 False (\<lambda>p c. None) (\<lambda>c. ''dump'') ''/tmp/f''
       (ContentList [TextBlock ''0123456789'', TextBlock ''abcdefghij''])
     = Inr (Some \<lparr>new_content = ContentList [TextBlock ''0123456789'', TextBlock ''abcdefghij''],
                  saved_file = None\<rparr>)
   \<and> truncate_and_save_response 20 False (\<lambda>p c. None) (\<lambda>c. ''dump'') ''/tmp/f''
       (ContentList [TextBlock ''0123456789'', TextBlock ''abcdefghijklmnopqrstuvwxyzABCD'',
                     TextBlock ''zz''])
     = Inr (Some \<lparr>new_content = ContentList
                    [TextBlock ''0123456789'', TextBlock (''abcdefgh'' @ append_hint),
                     save_message ''/tmp/f'' True],
                  saved_file = Some (''/tmp/f'', ''dump'')\<rparr>)
   \<and> truncate_and_save_response 20 False (\<lambda>p c. None) (\<lambda>c. ''dump'') ''/tmp/f''
       (ContentStr ''abcdefghijklmnopqrstuvwxyzABCD'')
     = Inr (Some \<lparr>new_content = ContentList
                    [TextBlock (''abcdefghijklmnop'' @ append_hint),
                     save_message ''/tmp/f'' True],
                  saved_file = Some (''/tmp/f'', ''dump'')\<rparr>)"
proof -
  note budget = truncate_and_save_response_budget
         [where B = 20 and sandbox_write = "\<lambda>p c. None" and dump_wrapped = "\<lambda>c. ''dump''"
            and file_path = "''/tmp/f''"
            and blocks = "[TextBlock ''0123456789'', TextBlock ''abcdefghij'']"
            and pre = "[TextBlock ''0123456789'']"
            and t = "''abcdefghijklmnopqrstuvwxyzABCD''"
            and post = "[TextBlock ''zz'']" and auto_save = False
            and s = "''abcdefghijklmnopqrstuvwxyzABCD''"]
  from budget have w1: "truncate_and_save_response 20 False (\<lambda>p c. None) (\<lambda>c. ''dump'') ''/tmp/f''
       (ContentList [TextBlock ''0123456789'', TextBlock ''abcdefghij''])
     = Inr (Some \<lparr>new_content = ContentList [TextBlock ''0123456789'', TextBlock ''abcdefghij''],
                  saved_file = None\<rparr>)"
    by simp
  from budget have w2: "truncate_and_save_response 20 False (\<lambda>p c. None) (\<lambda>c. ''dump'') ''/tmp/f''
       (ContentList [TextBlock ''0123456789'', TextBlock ''abcdefghijklmnopqrstuvwxyzABCD'',
                     TextBlock ''zz''])
     = Inr (Some \<lparr>new_content = ContentList
                    [TextBlock ''0123456789'', TextBlock (''abcdefgh'' @ append_hint),
                     save_message ''/tmp/f'' True],
                  saved_file = Some (''/tmp/f'', ''dump'')\<rparr>)"
    by (simp add: slice_to_def threshold_of_def)
  have pre3: "(20::int) < int (length ''abcdefghijklmnopqrstuvwxyzABCD'')
              \<and> ''abcdefghijklmnopqrstuvwxyzABCD'' \<noteq> []
              \<and> (None :: py_exc option) = None"
    by simp
  from budget pre3 have raw: "truncate_and_save_response 20 False (\<lambda>p c. None) (\<lambda>c. ''dump'') ''/tmp/f''
       (ContentStr ''abcdefghijklmnopqrstuvwxyzABCD'')
     = Inr (Some \<lparr>new_content = ContentList
                    [TextBlock (slice_to ''abcdefghijklmnopqrstuvwxyzABCD''
                                  (str_threshold 20 (length ''abcdefghijklmnopqrstuvwxyzABCD''))
                                @ append_hint),
                     save_message ''/tmp/f'' True],
                  saved_file = Some (''/tmp/f'', ''dump'')\<rparr>)"
    by blast
  have cut3: "slice_to ''abcdefghijklmnopqrstuvwxyzABCD'' (str_threshold 20 (length ''abcdefghijklmnopqrstuvwxyzABCD''))
                = ''abcdefghijklmnop''"
    by code_simp
  from raw have w3: "truncate_and_save_response 20 False (\<lambda>p c. None) (\<lambda>c. ''dump'') ''/tmp/f''
       (ContentStr ''abcdefghijklmnopqrstuvwxyzABCD'')
     = Inr (Some \<lparr>new_content = ContentList
                    [TextBlock (''abcdefghijklmnop'' @ append_hint),
                     save_message ''/tmp/f'' True],
                  saved_file = Some (''/tmp/f'', ''dump'')\<rparr>)"
    unfolding cut3 .
  from w1 w2 w3 show ?thesis by (intro conjI)
qed

text \<open>
  Claim C3 as stated fails: with budget 20, after a segment of 10 characters a segment of
  30 characters is cut to 8 characters, 85 percent of the remaining 10, and not to the 17
  characters that 85 percent of the configured budget would keep; and a response that is
  one string of 30 characters is cut to 16 characters.
\<close>

theorem truncation_remaining_budget_counterexample:
  "truncate_and_save_response 20 False (\<lambda>p c. None) (\<lambda>c. ''dump'') ''/tmp/f''
       (ContentList [TextBlock ''0123456789'', TextBlock ''abcdefghijklmnopqrstuvwxyzABCD''])
     = Inr (Some \<lparr>new_content = ContentList
                    [TextBlock ''0123456789'', TextBlock (''abcdefgh'' @ append_hint),
                     save_message ''/tmp/f'' True],
                  saved_file = Some (''/tmp/f'', ''dump'')\<rparr>)
   \<and> take (nat \<lfloor>(0.85::real) * 20\<rfloor>) ''abcdefghijklmnopqrstuvwxyzABCD'' = ''abcdefghijklmnopq''
   \<and> truncate_and_save_response 20 False (\<lambda>p c. None) (\<lambda>c. ''dump'') ''/tmp/f''
       (ContentStr ''abcdefghijklmnopqrstuvwxyzABCD'')
     = Inr (Some \<lparr>new_content = ContentList
                    [TextBlock (''abcdefghijklmnop'' @ append_hint),
                     save_message ''/tmp/f'' True],
                  saved_file = Some (''/tmp/f'', ''dump'')\<rparr>)"
proof -
  have a: "truncate_and_save_response 20 False (\<lambda>p c. None) (\<lambda>c. ''dump'') ''/tmp/f''
       (ContentList [TextBlock ''0123456789'', TextBlock ''abcdefghijklmnopqrstuvwxyzABCD''])
     = Inr (Some \<lparr>new_content = ContentList
                    [TextBlock ''0123456789'', TextBlock (''abcdefgh'' @ append_hint),
                     save_message ''/tmp/f'' True],
                  saved_file = Some (''/tmp/f'', ''dump'')\<rparr>)"
    by code_simp
  have "nat \<lfloor>(0.85::real) * 20\<rfloor> = 17" by simp
  then have b: "take (nat \<lfloor>(0.85::real) * 20\<rfloor>) ''abcdefghijklmnopqrstuvwxyzABCD''
                  = ''abcdefghijklmnopq''"
    by simp
  have c: "truncate_and_save_response 20 False (\<lambda>p c. None) (\<lambda>c. ''dump'') ''/tmp/f''
       (ContentStr ''abcdefghijklmnopqrstuvwxyzABCD'')
     = Inr (Some \<lparr>new_content = ContentList
                    [TextBlock (''abcdefghijklmnop'' @ append_hint),
                     save_message ''/tmp/f'' True],
                  saved_file = Some (''/tmp/f'', ''dump'')\<rparr>)"
    by code_simp
  from a b c show ?thesis by (intro conjI)
qed

end
